theory Spec2Isabelle
  imports Main "HOL-Library.AList"
begin

section \<open>Data model\<close>

text \<open>
  Python dictionaries keep insertion order and have one entry per key. They are modelled
  as association lists: \<open>d.get(k, v)\<close> reads through \<open>map_of\<close>, \<open>d[k] = v\<close> is
  \<open>AList.update\<close> (an existing key keeps its position, a new key is appended) and
  \<open>del d[k]\<close> is \<open>AList.delete\<close>. A dictionary has distinct keys.
\<close>

type_synonym 'v sdict = "(string \<times> 'v) list"

definition get0 :: "(string \<times> int) list \<Rightarrow> string \<Rightarrow> int" where
  \<comment> \<open>\<open>d.get(k, 0)\<close>\<close>
  "get0 d k = (case map_of d k of None \<Rightarrow> 0 | Some v \<Rightarrow> v)"

definition is_dict :: "('k \<times> 'v) list \<Rightarrow> bool" where
  "is_dict d = distinct (map fst d)"

text \<open>model/card.py, class Card.\<close>

record card =
  card_id :: string
  card_name :: string
  buy_cost_plasma :: int
  play_cost :: "(string \<times> int) list"
  card_type :: string
  domain :: string
  mat_points :: int
  can_play_on_mat :: bool
  effect :: string

text \<open>model/player.py, class PlayerState.\<close>

record player =
  p_id :: nat
  deck :: "string list"
  hand :: "string list"
  discard :: "string list"
  mat :: "(int \<times> string) list"
  workers :: int
  vp :: int
  resources :: "(string \<times> int) list"
  first_play_turn :: "(string \<times> int) list"
  p_slot2_type :: "string option"
  visits :: "(string \<times> int) list"

text \<open>
  Modelled from the spec: the module \<open>scarecrovv.constants\<close> that setup.py imports
  \<open>RES\<close> from is not among the sources. The spec gives the fixed priority order
  plasma, ash, shards, nut, berry, mushroom, which is also the tuple \<open>_RES_KEYS\<close> that
  model/player.py and model/card.py duplicate from it.
\<close>

definition RES :: "string list" where
  "RES = [''plasma'', ''ash'', ''shards'', ''nut'', ''berry'', ''mushroom'']"

section \<open>engine/setup.py: mat discounts\<close>

definition slot2_type :: "(string \<times> card) list \<Rightarrow> player \<Rightarrow> string option" where
  \<comment> \<open>\<open>if c:\<close> holds for every Card object; \<open>c.type_\<close> is returned as it is\<close>
  "slot2_type lib p =
     (case map_of (mat p) 2 of
        None \<Rightarrow> None
      | Some cid \<Rightarrow> (case map_of lib cid of None \<Rightarrow> None | Some c \<Rightarrow> Some (card_type c)))"

definition total_discount_for_card :: "(string \<times> card) list \<Rightarrow> player \<Rightarrow> card \<Rightarrow> int" where
  \<comment> \<open>\<open>if s2 and ...\<close>: an empty type string is falsy\<close>
  "total_discount_for_card lib p c =
     (let disc = (0::int);
          s2 = slot2_type lib p;
          disc = (if (case s2 of None \<Rightarrow> False | Some s \<Rightarrow> s \<noteq> [] \<and> card_type c = s)
                  then disc + 1 else disc);
          disc = (if map_of (mat p) 4 \<noteq> None \<and> card_type c = ''Critter'' then disc + 1 else disc);
          disc = (if map_of (mat p) 5 \<noteq> None \<and> card_type c = ''Farm'' then disc + 1 else disc);
          disc = (if map_of (mat p) 6 \<noteq> None \<and> card_type c = ''Wild'' then disc + 1 else disc)
      in min disc 1)"

fun discount_loop :: "string list \<Rightarrow> (string \<times> int) list \<Rightarrow> (string \<times> int) list" where
  \<comment> \<open>the \<open>for k in RES: ... break\<close> loop of \<open>discounted_cost\<close>\<close>
  "discount_loop [] cost = cost"
| "discount_loop (k # ks) cost =
     (if get0 cost k > 0
      then (let cost1 = AList.update k (get0 cost k - 1) cost
            in if get0 cost1 k \<le> 0 then AList.delete k cost1 else cost1)
      else discount_loop ks cost)"

definition discounted_cost :: "card \<Rightarrow> int \<Rightarrow> (string \<times> int) list" where
  "discounted_cost c disc =
     (if disc \<le> 0 then play_cost c else discount_loop RES (play_cost c))"


section \<open>engine/actions.py: mixed payment from counters and hand tokens\<close>

definition startswith :: "string \<Rightarrow> string \<Rightarrow> bool" where
  "startswith s pre = (take (length pre) s = pre)"

definition res_token :: "string \<Rightarrow> string" where
  \<comment> \<open>the f-string \<open>f"RES:{key}"\<close>\<close>
  "res_token key = ''RES:'' @ key"

definition choice_key :: string where
  "choice_key = ''__choice_one_of__''"

text \<open>
  A play cost of a VP token is a dictionary from resource names to amounts that may also
  hold, under the key \<open>__choice_one_of__\<close>, a list of resource names. The record keeps
  the integer entries in \<open>fixed\<close> and the list in \<open>choice_one_of\<close>; an absent key
  is the empty list, as \<open>cost.get("__choice_one_of__", [])\<close> reads it.
\<close>

record vp_cost =
  fixed :: "(string \<times> int) list"
  choice_one_of :: "string list"

definition count_res_tokens_in_hand :: "player \<Rightarrow> string \<Rightarrow> int" where
  "count_res_tokens_in_hand p key = int (length (filter (\<lambda>t. t = res_token key) (hand p)))"

fun remove_loop :: "string \<Rightarrow> string list \<Rightarrow> int \<Rightarrow> int \<Rightarrow> string list \<times> int" where
  \<comment> \<open>the \<open>while i < len(p.hand) and removed < n\<close> loop: the rest of the hand after
      position \<open>i\<close>, the tokens removed so far\<close>
  "remove_loop tok [] removed n = ([], removed)"
| "remove_loop tok (t # ts) removed n =
     (if removed < n
      then (if t = tok then remove_loop tok ts (removed + 1) n
            else (case remove_loop tok ts removed n of (ts', r) \<Rightarrow> (t # ts', r)))
      else (t # ts, removed))"

definition remove_res_tokens_from_hand :: "player \<Rightarrow> string \<Rightarrow> int \<Rightarrow> player \<times> int" where
  "remove_res_tokens_from_hand p key n =
     (if n \<le> 0 then (p, 0)
      else (case remove_loop (res_token key) (hand p) 0 n of
              (h, removed) \<Rightarrow> (p\<lparr>hand := h\<rparr>, removed)))"

definition available_amount :: "player \<Rightarrow> string \<Rightarrow> int" where
  "available_amount p key = get0 (resources p) key + count_res_tokens_in_hand p key"

fun can_pay_mixed :: "player \<Rightarrow> (string \<times> int) list \<Rightarrow> bool" where
  "can_pay_mixed p [] = True"
| "can_pay_mixed p ((k, need) # rest) =
     (if k = choice_key then can_pay_mixed p rest
      else if available_amount p k < need then False
      else can_pay_mixed p rest)"

fun pay_mixed :: "player \<Rightarrow> (string \<times> int) list \<Rightarrow> bool \<Rightarrow> player" where
  "pay_mixed p [] prefer_tokens_first = p"
| "pay_mixed p ((k, need) # rest) prefer_tokens_first =
     (if k = choice_key then pay_mixed p rest prefer_tokens_first
      else if need \<le> 0 then pay_mixed p rest prefer_tokens_first
      else if prefer_tokens_first
      then (case remove_res_tokens_from_hand p k need of
              (p1, used_tok) \<Rightarrow>
                (let remain = need - used_tok;
                     p2 = (if remain > 0
                           then p1\<lparr>resources :=
                                  AList.update k (get0 (resources p1) k - remain) (resources p1)\<rparr>
                           else p1)
                 in pay_mixed p2 rest prefer_tokens_first))
      else (let pool_pay = min (get0 (resources p) k) need;
                p1 = p\<lparr>resources := AList.update k (get0 (resources p) k - pool_pay) (resources p)\<rparr>;
                remain = need - pool_pay;
                p2 = (if remain > 0 then fst (remove_res_tokens_from_hand p1 k remain) else p1)
            in pay_mixed p2 rest prefer_tokens_first))"

text \<open>
  actions.py defines \<open>_vp_play_cost\<close>, \<open>_can_pay_with_choice\<close> and
  \<open>_pay_with_choice\<close> twice; the later definitions (lines 115 to 182) replace the
  earlier ones when the module is loaded, and are the ones modelled.
\<close>

definition can_pay_with_choice :: "player \<Rightarrow> vp_cost \<Rightarrow> bool" where
  "can_pay_with_choice p cost =
     (if \<not> can_pay_mixed p (fixed cost) then False
      else if choice_one_of cost \<noteq> []
      then list_ex (\<lambda>rk. available_amount p rk \<ge> 1) (choice_one_of cost)
      else True)"

fun choose_loop :: "player \<Rightarrow> string list \<Rightarrow> (string \<times> int \<times> int) option \<Rightarrow> string option" where
  \<comment> \<open>the loop of \<open>_choose_choice_key_to_pay\<close>; the accumulator is \<open>(best, best_tuple)\<close>,
      tuples compared lexicographically\<close>
  "choose_loop p [] acc = map_option fst acc"
| "choose_loop p (rk # rest) acc =
     (let tok = count_res_tokens_in_hand p rk;
          avail = available_amount p rk
      in if avail < 1 then choose_loop p rest acc
         else (let key = (- tok, - avail)
               in if (case acc of
                        None \<Rightarrow> True
                      | Some (b, bt) \<Rightarrow> fst key < fst bt \<or> (fst key = fst bt \<and> snd key < snd bt))
                  then choose_loop p rest (Some (rk, key))
                  else choose_loop p rest acc))"

definition choose_choice_key_to_pay :: "player \<Rightarrow> string list \<Rightarrow> string option" where
  "choose_choice_key_to_pay p choices = (if choices = [] then None else choose_loop p choices None)"

definition pay_with_choice :: "player \<Rightarrow> vp_cost \<Rightarrow> bool \<Rightarrow> player \<times> bool" where
  "pay_with_choice p cost prefer_tokens_first =
     (let p1 = pay_mixed p (filter (\<lambda>kv. fst kv \<noteq> choice_key) (fixed cost)) prefer_tokens_first;
          choices = choice_one_of cost
      in if choices \<noteq> []
         then (case choose_choice_key_to_pay p1 choices of
                 None \<Rightarrow> (p1, False)
               | Some rk \<Rightarrow>
                   (if prefer_tokens_first
                    then (case remove_res_tokens_from_hand p1 rk 1 of
                            (p2, used) \<Rightarrow>
                              (if used = 0
                               then (p2\<lparr>resources :=
                                       AList.update rk (get0 (resources p2) rk - 1) (resources p2)\<rparr>, True)
                               else (p2, True)))
                    else (if get0 (resources p1) rk > 0
                          then (p1\<lparr>resources :=
                                  AList.update rk (get0 (resources p1) rk - 1) (resources p1)\<rparr>, True)
                          else (fst (remove_res_tokens_from_hand p1 rk 1), True))))
         else (p1, True))"


section \<open>Configuration, event log and game state\<close>

text \<open>
  config.py, class Config: the attributes the engine reads. \<open>pool_buy_cost_override\<close>
  may be \<open>None\<close>. \<open>workers_per_round\<close> is read with \<open>getattr(cfg, ..., 2)\<close> and
  is not declared by the class, so it is optional.
\<close>

record config =
  seed :: int
  cfg_players :: nat
  victory_vp :: int
  hand_size :: int
  pool_buy_cost_override :: "int option"
  vp_cost_1 :: int
  vp_cost_3 :: int
  vp1_play_cost :: vp_cost
  vp3_play_cost :: vp_cost
  mcts :: int
  rollouts :: int
  horizon :: int
  mcts_actions_cap :: int
  mcts_time_ms :: int
  workers_per_round :: "int option"

text \<open>utils/logging.py: an event is a dictionary with values of several types.\<close>

datatype ev_val =
    I int
  | S string
  | B bool
  | NoneV
  | IL "int list"
  | D "(string \<times> int) list"
  | C vp_cost

type_synonym event = "(string \<times> ev_val) list"

text \<open>
  model/game.py, class GameState. The generator \<open>rng\<close> is a \<open>random.Random\<close>; its
  internal state is kept as a number, and the one operation the engine's actions need,
  \<open>rng.shuffle\<close>, is a parameter of the functions that draw cards: it maps a generator
  state and a list to the shuffled list and the next generator state.
\<close>

type_synonym shuffle = "nat \<Rightarrow> string list \<Rightarrow> string list \<times> nat"

record game =
  cfg :: config
  rng :: nat
  cards :: "(string \<times> card) list"
  "supply" :: "string list"
  pool :: "string list"
  pool_discard :: "string list"
  players :: "player list"
  turn :: int
  current_player :: nat
  field_capacity :: "(string \<times> int) list"
  field_occupancy :: "(string \<times> int) list"
  forage_yield_bonus_this_round :: int
  hand_size_delta_next_round :: "(nat \<times> int) list"
  blight_compost_at_end :: bool
  first_to_three_domains_claimed :: bool
  start_player :: nat
  turn_order :: "nat list"
  initiative_pid :: "nat option"
  log :: "event list"

datatype py_error = IndexError | KeyError | ValueError

definition emit :: "game \<Rightarrow> event \<Rightarrow> game" where
  "emit g rec = g\<lparr>log := log g @ [rec]\<rparr>"

definition set_player :: "game \<Rightarrow> nat \<Rightarrow> player \<Rightarrow> game" where
  \<comment> \<open>the player object at position \<open>pid\<close> of \<open>g.players\<close>, after its mutation\<close>
  "set_player g pid p = g\<lparr>players := (players g)[pid := p]\<rparr>"

subsection \<open>model/game.py: turn order, initiative, occupancy\<close>

definition set_turn_order_for_round :: "game \<Rightarrow> game" where
  "set_turn_order_for_round g =
     (let n = length (players g)
      in if n \<le> 0 then g\<lparr>turn_order := []\<rparr>
         else (let s = start_player g mod n;
                   g1 = g\<lparr>turn_order := [s..<n] @ [0..<s]\<rparr>;
                   g2 = g1\<lparr>current_player := hd (turn_order g1)\<rparr>
               in emit g2 [(''a'', S ''turn_order_set''), (''t'', I (turn g2)),
                           (''start_player'', I (int (start_player g2))),
                           (''order'', IL (map int (turn_order g2)))]))"

definition next_round_start_from_initiative :: "game \<Rightarrow> game" where
  "next_round_start_from_initiative g =
     (let prev = start_player g;
          g1 = (case initiative_pid g of
                  None \<Rightarrow> g
                | Some i \<Rightarrow> g\<lparr>start_player := i, initiative_pid := None\<rparr>)
      in emit g1 [(''a'', S ''initiative_applied''), (''t'', I (turn g1)),
                  (''prev_start'', I (int prev)), (''next_start'', I (int (start_player g1)))])"

definition clear_round_occupancy :: "game \<Rightarrow> game" where
  "clear_round_occupancy g =
     (let g1 = (if field_capacity g \<noteq> []
                then g\<lparr>field_occupancy := map (\<lambda>kv. (fst kv, 0)) (field_capacity g)\<rparr>
                else g)
      in emit g1 [(''a'', S ''field_occupancy_cleared''), (''t'', I (turn g1))])"

definition claim_initiative :: "game \<Rightarrow> nat \<Rightarrow> game \<times> bool" where
  "claim_initiative g pid =
     (if initiative_pid g \<noteq> None then (g, False)
      else (emit (g\<lparr>initiative_pid := Some pid\<rparr>)
              [(''a'', S ''initiative_claimed''), (''t'', I (turn g)), (''pid'', I (int pid))], True))"


section \<open>Python string operations\<close>

text \<open>
  Strings are taken to be ASCII text. \<open>py_split\<close> is \<open>s.split(sep)\<close> for a separator
  of one character, \<open>py_strip\<close> is \<open>s.strip()\<close>, \<open>py_lower\<close> is \<open>s.lower()\<close>
  and \<open>py_int\<close> is \<open>int(s)\<close>, with \<open>None\<close> where Python raises ValueError.
  \<open>s.strip()\<close> removes the characters \<open>str.isspace\<close> accepts, which among the
  ASCII characters are 9 to 13, 28 to 31 and 32; \<open>int(s)\<close> on an ASCII string skips
  only 9 to 13 and 32 around the number, and raises ValueError on 28 to 31.
\<close>

fun py_split :: "char \<Rightarrow> string \<Rightarrow> string list" where
  "py_split sep [] = [[]]"
| "py_split sep (x # xs) =
     (if x = sep then [] # py_split sep xs
      else (case py_split sep xs of
              [] \<Rightarrow> [[x]]
            | w # ws \<Rightarrow> (x # w) # ws))"

definition is_space :: "char \<Rightarrow> bool" where
  "is_space c = ((of_char c :: nat) \<in> {9, 10, 11, 12, 13, 28, 29, 30, 31, 32})"

definition py_strip :: "string \<Rightarrow> string" where
  "py_strip s = rev (dropWhile is_space (rev (dropWhile is_space s)))"

definition py_lower :: "string \<Rightarrow> string" where
  "py_lower s =
     map (\<lambda>c. if 65 \<le> (of_char c :: nat) \<and> (of_char c :: nat) \<le> 90
                then char_of ((of_char c :: nat) + 32) else c) s"

definition is_digit :: "char \<Rightarrow> bool" where
  "is_digit c = (48 \<le> (of_char c :: nat) \<and> (of_char c :: nat) \<le> 57)"

fun no_double_underscore :: "string \<Rightarrow> bool" where
  "no_double_underscore (a # b # cs) =
     (\<not> (a = CHR ''_'' \<and> b = CHR ''_'') \<and> no_double_underscore (b # cs))"
| "no_double_underscore _ = True"

definition digits_value :: "string \<Rightarrow> int" where
  "digits_value ds = foldl (\<lambda>acc c. 10 * acc + (int (of_char c) - 48)) 0 ds"

definition is_c_space :: "char \<Rightarrow> bool" where
  "is_c_space c = ((of_char c :: nat) \<in> {9, 10, 11, 12, 13, 32})"

definition int_strip :: "string \<Rightarrow> string" where
  \<comment> \<open>the whitespace \<open>int\<close> skips before and after the number\<close>
  "int_strip s = rev (dropWhile is_c_space (rev (dropWhile is_c_space s)))"

definition py_int :: "string \<Rightarrow> int option" where
  "py_int s =
     (let t = int_strip s;
          sgn = (if t \<noteq> [] \<and> hd t = CHR ''-'' then - 1 else (1::int));
          body = (if t \<noteq> [] \<and> (hd t = CHR ''-'' \<or> hd t = CHR ''+'') then tl t else t)
      in if body \<noteq> [] \<and> is_digit (hd body) \<and> is_digit (last body)
            \<and> list_all (\<lambda>c. is_digit c \<or> c = CHR ''_'') body \<and> no_double_underscore body
         then Some (sgn * digits_value (filter is_digit body))
         else None)"

section \<open>engine/setup.py: deck, draw and compost\<close>

definition reshuffle_if_needed :: "shuffle \<Rightarrow> player \<Rightarrow> nat \<Rightarrow> player \<times> nat" where
  "reshuffle_if_needed sh p r =
     (if deck p = [] \<and> discard p \<noteq> []
      then (case sh r (discard p) of (d, r') \<Rightarrow> (p\<lparr>deck := d, discard := []\<rparr>, r'))
      else (p, r))"

fun draw :: "shuffle \<Rightarrow> game \<Rightarrow> nat \<Rightarrow> nat \<Rightarrow> game" where
  \<comment> \<open>\<open>draw(g, p, n)\<close> for the player object at position \<open>i\<close> of \<open>g.players\<close>; the
      deck is drawn from its end\<close>
  "draw sh g i 0 = g"
| "draw sh g i (Suc n) =
     (let p = players g ! i;
          g1 = (if deck p = []
                then (let g0 = (if discard p \<noteq> []
                                then emit g [(''a'', S ''reshuffle''), (''p'', I (int (p_id p))),
                                             (''n'', I (int (length (discard p))))]
                                else g)
                      in (case reshuffle_if_needed sh p (rng g0) of
                            (p', r') \<Rightarrow> set_player (g0\<lparr>rng := r'\<rparr>) i p'))
                else g);
          p1 = players g1 ! i
      in if deck p1 = [] then g1
         else draw sh (set_player g1 i (p1\<lparr>hand := hand p1 @ [last (deck p1)],
                                          deck := butlast (deck p1)\<rparr>)) i n)"

definition draw_to_hand_size :: "shuffle \<Rightarrow> game \<Rightarrow> nat \<Rightarrow> int \<Rightarrow> game" where
  "draw_to_hand_size sh g i target =
     (let need = max 0 (target - int (length (hand (players g ! i))))
      in if need > 0 then draw sh g i (nat need) else g)"

definition effect_tags :: "string \<Rightarrow> string list" where
  "effect_tags effect_str =
     (if effect_str = [] then []
      else map py_strip (filter (\<lambda>t. py_strip t \<noteq> []) (py_split CHR '';'' effect_str)))"

fun gains_loop :: "string list \<Rightarrow> (string \<times> int) list \<Rightarrow> (string \<times> int) list" where
  "gains_loop [] gains = gains"
| "gains_loop (tag # tags) gains =
     (if startswith tag ''if_composted_gain:'' \<or> startswith tag ''on_compost:''
      then (let parts = py_split CHR '':'' tag
            in if length parts \<ge> 3
               then (let res = py_lower (py_strip (parts ! 1));
                         amt = (case py_int (py_strip (parts ! 2)) of None \<Rightarrow> 0 | Some a \<Rightarrow> a)
                     in if res \<in> set RES \<and> amt > 0
                        then gains_loop tags (AList.update res (get0 gains res + amt) gains)
                        else gains_loop tags gains)
               else gains_loop tags gains)
      else gains_loop tags gains)"

definition compost_gains_for :: "card \<Rightarrow> (string \<times> int) list" where
  "compost_gains_for c = gains_loop (effect_tags (effect c)) []"

fun grant_resources :: "player \<Rightarrow> (string \<times> int) list \<Rightarrow> player" where
  "grant_resources p [] = p"
| "grant_resources p ((k, v) # rest) =
     grant_resources (p\<lparr>resources := AList.update k (get0 (resources p) k + v) (resources p)\<rparr>) rest"

definition pop_at :: "'a list \<Rightarrow> nat \<Rightarrow> 'a list" where
  \<comment> \<open>the list after \<open>xs.pop(i)\<close> or \<open>del xs[i]\<close>, for \<open>i\<close> in range\<close>
  "pop_at xs i = take i xs @ drop (Suc i) xs"

definition compost_from_hand :: "game \<Rightarrow> nat \<Rightarrow> int \<Rightarrow> string \<Rightarrow> game" where
  \<comment> \<open>every caller has read \<open>g.players[pid]\<close> before, so \<open>pid\<close> is in range\<close>
  "compost_from_hand g pid index reason =
     (let p = players g ! pid
      in if \<not> (0 \<le> index \<and> index < int (length (hand p))) then g
         else (let tok = hand p ! nat index;
                   p1 = p\<lparr>hand := pop_at (hand p) (nat index)\<rparr>;
                   g1 = set_player g pid p1;
                   g2 = (case map_of (cards g1) tok of
                           None \<Rightarrow> g1
                         | Some c \<Rightarrow>
                             (let gains = compost_gains_for c
                              in if gains \<noteq> []
                                 then emit (set_player g1 pid (grant_resources p1 gains))
                                        [(''t'', I (turn g1)), (''a'', S ''on_compost_gain''),
                                         (''p'', I (int pid)), (''cid'', S (card_id c)),
                                         (''grants'', D gains), (''reason'', S reason)]
                                 else g1))
               in emit g2 [(''t'', I (turn g2)), (''a'', S ''compost''), (''p'', I (int pid)),
                           (''card'', S tok), (''reason'', S reason)]))"


section \<open>engine/actions.py: legal actions\<close>

text \<open>
  An action is a pair of a kind and an argument tuple:
  \<open>("play", (hand_idx, to_mat, slot))\<close>, \<open>("buy_pool", (j,))\<close>, \<open>("buy_vp", (v,))\<close>,
  \<open>("worker", (field,))\<close>, \<open>("pass", None)\<close>. \<open>Other\<close> stands for any other kind.
\<close>

datatype action =
    Play int bool "int option"
  | Buy_pool int
  | Buy_vp int
  | Worker string
  | Pass
  | Other string

definition vp_play_cost :: "game \<Rightarrow> int \<Rightarrow> vp_cost" where
  \<comment> \<open>class Config declares both attributes, so \<open>getattr\<close> never takes its default\<close>
  "vp_play_cost g vp_value =
     (if vp_value = 1 then vp1_play_cost (cfg g)
      else if vp_value = 3 then vp3_play_cost (cfg g)
      else \<lparr>fixed = [], choice_one_of = []\<rparr>)"

definition vp_value_of :: "string \<Rightarrow> int" where
  \<comment> \<open>\<open>try: int(tok.split(":")[1]) except Exception: 1\<close>\<close>
  "vp_value_of tok =
     (case py_split CHR '':'' tok of
        a # b # rest \<Rightarrow> (case py_int b of None \<Rightarrow> 1 | Some v \<Rightarrow> v)
      | _ \<Rightarrow> 1)"

definition affordable_now :: "game \<Rightarrow> nat \<Rightarrow> card \<Rightarrow> bool" where
  "affordable_now g pid c =
     (let p = players g ! pid;
          disc = total_discount_for_card (cards g) p c;
          eff = discounted_cost c disc
      in can_pay_mixed p eff)"

definition legal_buy_vp :: "game \<Rightarrow> nat \<Rightarrow> action list" where
  "legal_buy_vp g pid =
     (let p = players g ! pid;
          cost1 = vp_cost_1 (cfg g);
          cost3 = vp_cost_3 (cfg g)
      in (if available_amount p ''plasma'' \<ge> cost1 then [Buy_vp 1] else [])
         @ (if available_amount p ''plasma'' \<ge> cost3 then [Buy_vp 3] else []))"

fun legal_play :: "game \<Rightarrow> nat \<Rightarrow> int \<Rightarrow> string list \<Rightarrow> action list" where
  \<comment> \<open>\<open>for i, tok in enumerate(p.hand)\<close>, from index \<open>i\<close> on\<close>
  "legal_play g pid i [] = []"
| "legal_play g pid i (tok # rest) =
     (let p = players g ! pid
      in (if startswith tok ''VP:''
          then (if can_pay_with_choice p (vp_play_cost g (vp_value_of tok))
                then [Play i False None] else [])
          else (case map_of (cards g) tok of
                  None \<Rightarrow> []
                | Some c \<Rightarrow>
                    (if affordable_now g pid c then [Play i False None] else [])
                    @ (if can_play_on_mat c \<and> affordable_now g pid c
                       then map (\<lambda>s. Play i True (Some s))
                              (filter (\<lambda>s. map_of (mat p) s = None) [1..6])
                       else [])))
         @ legal_play g pid (i + 1) rest)"

definition pool_cost :: "game \<Rightarrow> card \<Rightarrow> int" where
  "pool_cost g c =
     (case pool_buy_cost_override (cfg g) of None \<Rightarrow> buy_cost_plasma c | Some cost \<Rightarrow> cost)"

fun legal_buy_pool :: "game \<Rightarrow> nat \<Rightarrow> int \<Rightarrow> string list \<Rightarrow> action list" where
  "legal_buy_pool g pid j [] = []"
| "legal_buy_pool g pid j (cid # rest) =
     (case map_of (cards g) cid of
        None \<Rightarrow> []
      | Some c \<Rightarrow>
          (if available_amount (players g ! pid) ''plasma'' \<ge> pool_cost g c
           then [Buy_pool j] else []))
     @ legal_buy_pool g pid (j + 1) rest"

definition legal_worker :: "game \<Rightarrow> nat \<Rightarrow> action list" where
  "legal_worker g pid =
     (if workers (players g ! pid) > 0
      then map (\<lambda>fc. Worker (fst fc))
             (filter (\<lambda>fc. get0 (field_occupancy g) (fst fc) < snd fc) (field_capacity g))
      else [])"

definition legal_actions :: "game \<Rightarrow> nat \<Rightarrow> py_error + action list" where
  "legal_actions g pid =
     (if pid \<ge> length (players g) then Inl IndexError
      else Inr (legal_play g pid 0 (hand (players g ! pid))
                @ legal_buy_pool g pid 0 (pool g)
                @ legal_buy_vp g pid
                @ legal_worker g pid
                @ [Pass]))"


section \<open>engine/actions.py: applying actions\<close>

definition mat_target :: "bool \<Rightarrow> card \<Rightarrow> int option \<Rightarrow> player \<Rightarrow> int option" where
  \<comment> \<open>the test \<open>to_mat and c.can_play_on_mat and slot and (slot not in p.mat)\<close>: the slot
      the card goes to, if it holds\<close>
  "mat_target to_mat c slot p =
     (if to_mat \<and> can_play_on_mat c
      then (case slot of
              None \<Rightarrow> None
            | Some s \<Rightarrow> (if s \<noteq> 0 \<and> map_of (mat p) s = None then Some s else None))
      else None)"

definition act_play_vp :: "game \<Rightarrow> nat \<Rightarrow> nat \<Rightarrow> string \<Rightarrow> game" where
  \<comment> \<open>the VP token branch of \<open>_act_play\<close>, for an index in range\<close>
  "act_play_vp g pid hand_idx tok =
     (let p = players g ! pid;
          vp_val = vp_value_of tok;
          play_cost = vp_play_cost g vp_val
      in if \<not> can_pay_with_choice p play_cost then g
         else (let p1 = p\<lparr>hand := pop_at (hand p) hand_idx\<rparr>
               in (case pay_with_choice p1 play_cost True of
                     (p2, ok) \<Rightarrow>
                       (if \<not> ok then set_player g pid (p2\<lparr>hand := tok # hand p2\<rparr>)
                        else (let bonus = (if map_of (mat p2) 1 \<noteq> None then 2 else 0);
                                  p3 = p2\<lparr>vp := vp p2 + (vp_val + bonus)\<rparr>;
                                  p4 = p3\<lparr>discard := discard p3 @ [tok]\<rparr>
                              in emit (set_player g pid p4)
                                   [(''a'', S ''play_vp''), (''p'', I (int pid)), (''vp'', I vp_val),
                                    (''bonus'', I bonus), (''total'', I (vp p4)),
                                    (''cost'', C play_cost)])))))"

definition act_play_card :: "game \<Rightarrow> nat \<Rightarrow> nat \<Rightarrow> card \<Rightarrow> bool \<Rightarrow> int option \<Rightarrow> game" where
  \<comment> \<open>the library card branch of \<open>_act_play\<close>, for an index in range\<close>
  "act_play_card g pid hand_idx c to_mat slot =
     (let p = players g ! pid;
          disc = total_discount_for_card (cards g) p c;
          eff = discounted_cost c disc
      in if \<not> can_pay_mixed p eff then g
         else (let p1 = p\<lparr>hand := pop_at (hand p) hand_idx\<rparr>;
                   p2 = pay_mixed p1 eff True;
                   g1 = set_player g pid p2;
                   g2 = (case mat_target to_mat c slot p2 of
                           Some s \<Rightarrow>
                             (let ga = set_player g1 pid (p2\<lparr>mat := AList.update s (card_id c) (mat p2)\<rparr>);
                                  gb = (if s = 2
                                        then emit (set_player ga pid
                                                     ((players ga ! pid)\<lparr>p_slot2_type := Some (card_type c)\<rparr>))
                                               [(''a'', S ''slot2_chosen''), (''p'', I (int pid)),
                                                (''type'', S (card_type c))]
                                        else if s = 3
                                        then (if hand (players ga ! pid) \<noteq> []
                                              then compost_from_hand ga pid 0 ''slot3'' else ga)
                                        else ga);
                                  pb = players gb ! pid;
                                  gc = set_player gb pid (pb\<lparr>discard := discard pb @ [card_id c]\<rparr>)
                              in emit gc [(''a'', S ''play_card''), (''p'', I (int pid)),
                                          (''cid'', S (card_id c)), (''name'', S (card_name c)),
                                          (''to_mat'', B True), (''slot'', I s)])
                         | None \<Rightarrow>
                             emit (set_player g1 pid (p2\<lparr>discard := discard p2 @ [card_id c]\<rparr>))
                               [(''a'', S ''play_card''), (''p'', I (int pid)),
                                (''cid'', S (card_id c)), (''name'', S (card_name c)),
                                (''to_mat'', B False)]);
                   pf = players g2 ! pid
               in if map_of (first_play_turn pf) (card_id c) = None
                  then set_player g2 pid
                         (pf\<lparr>first_play_turn := AList.update (card_id c) (turn g2) (first_play_turn pf)\<rparr>)
                  else g2))"

definition act_play :: "game \<Rightarrow> nat \<Rightarrow> int \<Rightarrow> bool \<Rightarrow> int option \<Rightarrow> py_error + game" where
  "act_play g pid hand_idx to_mat slot =
     (if pid \<ge> length (players g) then Inl IndexError
      else (let p = players g ! pid
            in if hand_idx < 0 \<or> hand_idx \<ge> int (length (hand p)) then Inr g
               else (let tok = hand p ! nat hand_idx
                     in if startswith tok ''VP:'' then Inr (act_play_vp g pid (nat hand_idx) tok)
                        else (case map_of (cards g) tok of
                                None \<Rightarrow> Inr g
                              | Some c \<Rightarrow> Inr (act_play_card g pid (nat hand_idx) c to_mat slot)))))"

definition setup_defines :: "string list" where
  \<comment> \<open>the names engine/setup.py binds at module level\<close>
  "setup_defines =
     [''annotations'', ''random'', ''Dict'', ''List'', ''Optional'', ''Config'', ''RES'', ''Card'',
      ''Player'', ''Game'', ''load_cards'', ''load_globals'', ''reshuffle_if_needed'', ''draw'',
      ''draw_to_hand_size'', ''slot2_type'', ''total_discount_for_card'', ''discounted_cost'',
      ''can_pay_res'', ''pay_res'', ''effect_tags'', ''compost_gains_for'', ''grant_resources'',
      ''compost_from_hand'', ''setup'']"

text \<open>
  Modelled from the spec: \<open>refill_pool\<close>, which \<open>_act_buy_pool\<close> imports from
  engine/setup.py, is defined nowhere in the sources. The spec has the market window
  backfilled from the supply stack while cards remain; \<open>setup\<close> fills the window from the
  end of the supply.
\<close>

definition refill_pool :: "game \<Rightarrow> int \<Rightarrow> game" where
  "refill_pool g n =
     (let k = min (nat (n - int (length (pool g)))) (length (supply g))
      in g\<lparr>pool := pool g @ take k (rev (supply g)),
            supply := take (length (supply g) - k) (supply g)\<rparr>)"

definition act_buy_pool :: "game \<Rightarrow> nat \<Rightarrow> int \<Rightarrow> py_error + game" where
  \<comment> \<open>the import inside \<open>try\<close> raises ImportError when setup.py does not bind the name;
      \<open>except Exception: pass\<close> swallows it\<close>
  "act_buy_pool g pid pool_idx =
     (if pid \<ge> length (players g) then Inl IndexError
      else (let p = players g ! pid
            in if pool_idx < 0 \<or> pool_idx \<ge> int (length (pool g)) then Inr g
               else (let cid = pool g ! nat pool_idx
                     in (case map_of (cards g) cid of
                           None \<Rightarrow> Inr g
                         | Some c \<Rightarrow>
                             (let cost = pool_cost g c
                              in if available_amount p ''plasma'' < cost then Inr g
                                 else (let p1 = pay_mixed p [(''plasma'', cost)] True;
                                           p2 = p1\<lparr>discard := discard p1 @ [cid]\<rparr>;
                                           g1 = set_player g pid p2;
                                           g2 = g1\<lparr>pool := pop_at (pool g1) (nat pool_idx)\<rparr>;
                                           g3 = emit g2 [(''a'', S ''buy''), (''p'', I (int pid)),
                                                         (''cid'', S cid), (''name'', S (card_name c)),
                                                         (''src'', S ''pool''), (''cost'', I cost)]
                                       in Inr (if ''refill_pool'' \<in> set setup_defines
                                               then refill_pool g3 10 else g3)))))))"

definition act_buy_vp :: "game \<Rightarrow> nat \<Rightarrow> int \<Rightarrow> py_error + game" where
  "act_buy_vp g pid v =
     (if v \<noteq> 1 \<and> v \<noteq> 3 then Inr g
      else if pid \<ge> length (players g) then Inl IndexError
      else (let p = players g ! pid;
                buy_cost = (if v = 1 then vp_cost_1 (cfg g) else vp_cost_3 (cfg g))
            in if available_amount p ''plasma'' < buy_cost then Inr g
               else (let p1 = pay_mixed p [(''plasma'', buy_cost)] True;
                         p2 = p1\<lparr>discard := discard p1 @ [if v = 1 then ''VP:1'' else ''VP:3'']\<rparr>
                     in Inr (emit (set_player g pid p2)
                               [(''a'', S ''buy_vp''), (''p'', I (int pid)), (''vp'', I v),
                                (''cost'', I buy_cost)]))))"

definition gain :: "game \<Rightarrow> nat \<Rightarrow> string \<Rightarrow> int \<Rightarrow> game" where
  \<comment> \<open>\<open>p.resources[k] = p.resources.get(k, 0) + n\<close>\<close>
  "gain g pid k n =
     (let p = players g ! pid
      in set_player g pid (p\<lparr>resources := AList.update k (get0 (resources p) k + n) (resources p)\<rparr>))"

definition field_effect :: "shuffle \<Rightarrow> game \<Rightarrow> nat \<Rightarrow> string \<Rightarrow> game" where
  \<comment> \<open>the \<open>if field == ... elif ...\<close> chain of \<open>_act_worker\<close>\<close>
  "field_effect sh g pid field =
     (if field = ''plasma'' then gain g pid ''plasma'' 1
      else if field = ''ash'' then gain g pid ''ash'' 1
      else if field = ''shards'' then gain g pid ''shards'' 1
      else if field = ''forage'' then gain g pid ''nut'' (1 + forage_yield_bonus_this_round g)
      else if field = ''rookery'' then draw sh g pid 1
      else if field = ''compost''
      then (if hand (players g ! pid) \<noteq> [] then compost_from_hand g pid 0 ''compost_field'' else g)
      else if field = ''initiative'' then fst (claim_initiative g pid)
      else g)"

definition act_worker :: "shuffle \<Rightarrow> game \<Rightarrow> nat \<Rightarrow> string \<Rightarrow> py_error + game" where
  "act_worker sh g pid field =
     (if pid \<ge> length (players g) then Inl IndexError
      else (let p = players g ! pid
            in if workers p \<le> 0 then Inr g
               else (let occ = get0 (field_occupancy g) field;
                         cap = get0 (field_capacity g) field
                     in if occ \<ge> cap then Inr g
                        else (let g1 = field_effect sh g pid field;
                                  p1 = players g1 ! pid;
                                  g2 = set_player g1 pid (p1\<lparr>workers := workers p1 - 1\<rparr>);
                                  g3 = g2\<lparr>field_occupancy := AList.update field (occ + 1) (field_occupancy g2)\<rparr>;
                                  p3 = players g3 ! pid;
                                  g4 = set_player g3 pid
                                         (p3\<lparr>visits := AList.update field (get0 (visits p3) field + 1) (visits p3)\<rparr>)
                              in Inr (emit g4 [(''a'', S ''worker''), (''p'', I (int pid)),
                                               (''field'', S field)])))))"

fun apply_action :: "shuffle \<Rightarrow> game \<Rightarrow> nat \<Rightarrow> action \<Rightarrow> py_error + game" where
  "apply_action sh g pid (Play i to_mat slot) = act_play g pid i to_mat slot"
| "apply_action sh g pid (Buy_pool j) = act_buy_pool g pid j"
| "apply_action sh g pid (Buy_vp v) = act_buy_vp g pid v"
| "apply_action sh g pid (Worker field) = act_worker sh g pid field"
| "apply_action sh g pid Pass = Inr (emit g [(''a'', S ''pass''), (''p'', I (int pid))])"
| "apply_action sh g pid (Other kind) = Inr g"

section \<open>engine/rounds.py\<close>

definition normalize_field_occupancy :: "game \<Rightarrow> game" where
  "normalize_field_occupancy g = g\<lparr>field_occupancy := map (\<lambda>kv. (fst kv, 0)) (field_capacity g)\<rparr>"

fun round_start_players :: "shuffle \<Rightarrow> game \<Rightarrow> nat list \<Rightarrow> game" where
  \<comment> \<open>the \<open>for p in g.players\<close> loop of \<open>start_of_round\<close>, over the positions left\<close>
  "round_start_players sh g [] = g"
| "round_start_players sh g (i # rest) =
     (let base_hand_size = hand_size (cfg g);
          workers_per_round = (case workers_per_round (cfg g) of None \<Rightarrow> 2 | Some w \<Rightarrow> w);
          p = players g ! i;
          p1 = p\<lparr>workers := workers_per_round\<rparr>;
          p2 = p1\<lparr>resources := AList.update ''plasma'' (get0 (resources p1) ''plasma'' + 1) (resources p1)\<rparr>;
          g1 = set_player g i p2;
          delta = (case map_of (hand_size_delta_next_round g1) (p_id p2) of None \<Rightarrow> 0 | Some d \<Rightarrow> d);
          target = base_hand_size + delta;
          g2 = draw_to_hand_size sh g1 i target;
          g3 = g2\<lparr>hand_size_delta_next_round :=
                    AList.update (p_id p2) 0 (hand_size_delta_next_round g2)\<rparr>
      in round_start_players sh g3 rest)"

definition start_of_round :: "shuffle \<Rightarrow> game \<Rightarrow> game" where
  \<comment> \<open>GameState declares no attribute \<open>accumulators\<close>, so the \<open>hasattr\<close> branch is skipped\<close>
  "start_of_round sh g =
     (let g1 = set_turn_order_for_round g;
          g2 = normalize_field_occupancy g1;
          g3 = round_start_players sh g2 [0..<length (players g2)];
          g4 = clear_round_occupancy g3
      in emit g4 [(''a'', S ''start_of_round''), (''t'', I (turn g4)),
                  (''start'', I (int (start_player g4))), (''order'', IL (map int (turn_order g4)))])"

fun round_end_discard :: "player list \<Rightarrow> player list" where
  "round_end_discard [] = []"
| "round_end_discard (p # ps) =
     (if hand p \<noteq> [] then p\<lparr>discard := discard p @ hand p, hand := []\<rparr> else p)
     # round_end_discard ps"

fun round_end_deltas :: "player list \<Rightarrow> (nat \<times> int) list \<Rightarrow> (nat \<times> int) list" where
  "round_end_deltas [] d = d"
| "round_end_deltas (p # ps) d = round_end_deltas ps (AList.update (p_id p) 0 d)"

definition end_of_round :: "game \<Rightarrow> game" where
  "end_of_round g =
     (let prev = start_player g;
          g1 = next_round_start_from_initiative g;
          g2 = g1\<lparr>players := round_end_discard (players g1)\<rparr>;
          g3 = g2\<lparr>forage_yield_bonus_this_round := 0, blight_compost_at_end := False\<rparr>;
          g4 = g3\<lparr>hand_size_delta_next_round :=
                    round_end_deltas (players g3) (hand_size_delta_next_round g3)\<rparr>;
          g5 = clear_round_occupancy g4;
          g6 = normalize_field_occupancy g5;
          g7 = g6\<lparr>turn := turn g6 + 1\<rparr>
      in emit g7 [(''a'', S ''end_of_round''), (''t'', I (turn g7)),
                  (''prev_start'', I (int prev)), (''next_start'', I (int (start_player g7)))])"

section \<open>engine/effects_globals.py\<close>

fun remove_vp :: "string \<Rightarrow> string" where
  \<comment> \<open>\<open>s.replace("vp", "")\<close>\<close>
  "remove_vp (a # b # rest) =
     (if a = CHR ''v'' \<and> b = CHR ''p'' then remove_vp rest else a # remove_vp (b # rest))"
| "remove_vp s = s"

definition remove_plus :: "string \<Rightarrow> string" where
  \<comment> \<open>\<open>s.replace("+", "")\<close>\<close>
  "remove_plus s = filter (\<lambda>c. c \<noteq> CHR ''+'') s"

definition int_part :: "string list \<Rightarrow> nat \<Rightarrow> (string \<Rightarrow> string) \<Rightarrow> py_error + int" where
  \<comment> \<open>\<open>int(f(parts[i]))\<close>: IndexError past the end, ValueError on a malformed number\<close>
  "int_part parts i f =
     (if i \<ge> length parts then Inl IndexError
      else (case py_int (f (parts ! i)) of None \<Rightarrow> Inl ValueError | Some n \<Rightarrow> Inr n))"

definition peek2_keep1 :: "game \<Rightarrow> nat \<Rightarrow> py_error + game" where
  "peek2_keep1 g pid =
     (if pid \<ge> length (players g) then Inl IndexError
      else Inr (emit g [(''a'', S ''global_rider''), (''p'', I (int pid)),
                        (''k'', S ''self_peek2_keep1''), (''kept'', NoneV), (''dumped'', NoneV)]))"

definition global_tag :: "game \<Rightarrow> nat \<Rightarrow> string \<Rightarrow> py_error + game" where
  \<comment> \<open>the body of the loop of \<open>apply_global_effects\<close> for one non-empty tag\<close>
  "global_tag g pid tag =
     (let parts = py_split CHR '':'' tag;
          key = hd parts
      in if key = ''hand_size_delta_next_round''
         then (case int_part parts 1 id of
                 Inl e \<Rightarrow> Inl e
               | Inr delta \<Rightarrow> Inr (emit g [(''a'', S ''global''), (''p'', I (int pid)),
                                            (''k'', S key), (''delta'', I delta)]))
         else if key = ''forage_yield_bonus_this_round''
         then (case int_part parts 1 remove_plus of
                 Inl e \<Rightarrow> Inl e
               | Inr bonus \<Rightarrow> Inr (emit g [(''a'', S ''global''), (''p'', I (int pid)),
                                            (''k'', S key), (''bonus'', I bonus)]))
         else if key = ''end_round_all_compost''
         then Inr (emit g [(''a'', S ''global''), (''p'', I (int pid)), (''k'', S key)])
         else if key = ''first_to_play_three_domains''
         then (case int_part parts 1 (\<lambda>s. remove_vp (remove_plus s)) of
                 Inl e \<Rightarrow> Inl e
               | Inr v \<Rightarrow> Inr (emit g [(''a'', S ''global''), (''p'', I (int pid)),
                                        (''k'', S key), (''vp'', I v)]))
         else if key = ''self_plasma''
         then (case int_part parts 1 id of
                 Inl e \<Rightarrow> Inl e
               | Inr n \<Rightarrow>
                   (if pid \<ge> length (players g) then Inl IndexError
                    else (case map_of (resources (players g ! pid)) ''plasma'' of
                            None \<Rightarrow> Inl KeyError
                          | Some v \<Rightarrow>
                              Inr (emit (set_player g pid
                                     ((players g ! pid)\<lparr>resources :=
                                        AList.update ''plasma'' (v + n) (resources (players g ! pid))\<rparr>))
                                     [(''a'', S ''global_rider''), (''p'', I (int pid)),
                                      (''k'', S key), (''n'', I n)]))))
         else if key = ''self_gain''
         then (if length parts < 2 then Inl IndexError
               else (case int_part parts 2 id of
                       Inl e \<Rightarrow> Inl e
                     | Inr n \<Rightarrow>
                         (if pid \<ge> length (players g) then Inl IndexError
                          else Inr (emit (gain g pid (parts ! 1) n)
                                      [(''a'', S ''global_rider''), (''p'', I (int pid)),
                                       (''k'', S key), (''res'', S (parts ! 1)), (''n'', I n)]))))
         else if key = ''self_vp''
         then (case int_part parts 1 id of
                 Inl e \<Rightarrow> Inl e
               | Inr n \<Rightarrow>
                   (if pid \<ge> length (players g) then Inl IndexError
                    else (let p = players g ! pid;
                              p1 = p\<lparr>vp := vp p + n\<rparr>
                          in Inr (emit (set_player g pid p1)
                                    [(''a'', S ''global_rider''), (''p'', I (int pid)),
                                     (''k'', S key), (''n'', I n), (''vp_total'', I (vp p1))]))))
         else if key = ''self_peek2_keep1'' then peek2_keep1 g pid
         else Inr g)"

fun global_loop :: "game \<Rightarrow> nat \<Rightarrow> string list \<Rightarrow> py_error + game" where
  "global_loop g pid [] = Inr g"
| "global_loop g pid (raw # rest) =
     (let tag = py_strip raw
      in if tag = [] then global_loop g pid rest
         else (case global_tag g pid tag of
                 Inl e \<Rightarrow> Inl e
               | Inr g1 \<Rightarrow> global_loop g1 pid rest))"

definition apply_global_effects :: "game \<Rightarrow> nat \<Rightarrow> string \<Rightarrow> py_error + game" where
  "apply_global_effects g pid eff =
     (if eff = [] then Inr g else global_loop g pid (py_split CHR '';'' eff))"

section \<open>engine/loop.py: choosing the bot\<close>

text \<open>
  loop.py binds \<open>greedy_choose\<close> and \<open>mcts_choose\<close> by
  \<open>try: from M import choose_action as x except Exception: x = None\<close>. The import
  succeeds when module \<open>M\<close> binds the name \<open>choose_action\<close> at its top level.
\<close>

definition greedy_defines :: "string list" where
  \<comment> \<open>the names bots/greedy.py binds at module level\<close>
  "greedy_defines =
     [''annotations'', ''Tuple'', ''List'', ''Optional'', ''legal_actions'', ''Action'',
      ''expected_vp_if_played_now'', ''resource_delta_if_played_now'', ''synergy_bonus'',
      ''hand_size'', ''mat_slots_free'', ''_parse_worker_field'', ''_initiative_variants'',
      ''_distance_to_first'', ''_initiative_desirability'', ''_cheapest_need_to_play'',
      ''_need_weight'', ''choose_action'']"

definition mcts_defines :: "string list" where
  \<comment> \<open>the names bots/mcts.py binds at module level\<close>
  "mcts_defines =
     [''annotations'', ''time'', ''copy'', ''Tuple'', ''List'', ''Optional'', ''legal_actions'',
      ''apply_action'', ''Action'', ''greedy_choose'', ''_rotate_to_next_player'',
      ''_terminal_value'', ''_static_eval'', ''_default_policy_choose'', ''_simulate_from'',
      ''_budget_ok'', ''mcts_choose'']"

datatype policy = Greedy_choose | Mcts_choose | Noop_choose

definition try_import :: "string list \<Rightarrow> string \<Rightarrow> policy \<Rightarrow> policy option" where
  "try_import module_names name f = (if name \<in> set module_names then Some f else None)"

definition loop_greedy_choose :: "policy option" where
  \<comment> \<open>\<open>from scarecrovv.bots.greedy import choose_action as greedy_choose\<close>\<close>
  "loop_greedy_choose = try_import greedy_defines ''choose_action'' Greedy_choose"

definition loop_mcts_choose :: "policy option" where
  \<comment> \<open>\<open>from scarecrovv.bots.mcts import choose_action as mcts_choose\<close>\<close>
  "loop_mcts_choose = try_import mcts_defines ''choose_action'' Mcts_choose"

definition choose_action_for_cfg :: "config \<Rightarrow> policy" where
  "choose_action_for_cfg c =
     (case (if mcts c \<noteq> 0 then loop_mcts_choose else None) of
        Some f \<Rightarrow> f
      | None \<Rightarrow> (case loop_greedy_choose of Some f \<Rightarrow> f | None \<Rightarrow> Noop_choose))"

section \<open>Specification-side definitions\<close>

text \<open>
  The discount as the specification words it: the first resource, in the fixed priority
  order, that has a nonzero cost entry loses one unit, and its entry is removed from the
  cost map when it reaches zero.
\<close>

definition first_nonzero :: "(string \<times> int) list \<Rightarrow> string option" where
  "first_nonzero cost = find (\<lambda>k. get0 cost k \<noteq> 0) RES"

definition discount_spec :: "(string \<times> int) list \<Rightarrow> (string \<times> int) list" where
  "discount_spec cost =
     (case first_nonzero cost of
        None \<Rightarrow> cost
      | Some k \<Rightarrow> (if get0 cost k - 1 = 0 then AList.delete k cost
                   else AList.update k (get0 cost k - 1) cost))"

definition total_units :: "(string \<times> int) list \<Rightarrow> int" where
  "total_units cost = sum_list (map snd cost)"

definition nonneg_cost :: "(string \<times> int) list \<Rightarrow> bool" where
  "nonneg_cost cost = list_all (\<lambda>kv. 0 \<le> snd kv) cost"

section \<open>Sample data\<close>

definition cfg0 :: config where
  \<comment> \<open>the defaults of class Config\<close>
  "cfg0 = \<lparr>seed = 42, cfg_players = 3, victory_vp = 24, hand_size = 5,
           pool_buy_cost_override = Some 1, vp_cost_1 = 1, vp_cost_3 = 2,
           vp1_play_cost = \<lparr>fixed = [(''plasma'', 1), (''shards'', 1)],
                            choice_one_of = [''plasma'', ''shards'', ''ash'', ''nut'', ''berry'',
                                             ''mushroom'']\<rparr>,
           vp3_play_cost = \<lparr>fixed = [(''plasma'', 1), (''ash'', 1), (''shards'', 1), (''nut'', 1),
                                     (''berry'', 1), (''mushroom'', 1)],
                            choice_one_of = []\<rparr>,
           mcts = 1, rollouts = 8, horizon = 3, mcts_actions_cap = 0, mcts_time_ms = 0,
           workers_per_round = None\<rparr>"

definition res0 :: "(string \<times> int) list" where
  \<comment> \<open>the default resource counters of PlayerState\<close>
  "res0 = [(''plasma'', 0), (''ash'', 0), (''shards'', 0), (''nut'', 0), (''berry'', 0),
           (''mushroom'', 0)]"

definition player0 :: player where
  "player0 = \<lparr>p_id = 0, deck = [], hand = [], discard = [], mat = [], workers = 2, vp = 0,
              resources = res0, first_play_turn = [], p_slot2_type = None, visits = []\<rparr>"

definition fields0 :: "(string \<times> int) list" where
  \<comment> \<open>the field capacities \<open>setup\<close> installs\<close>
  "fields0 = [(''plasma'', 1), (''ash'', 1), (''shards'', 1), (''forage'', 1), (''rookery'', 1),
              (''compost'', 1), (''initiative'', 1)]"

definition game0 :: game where
  "game0 = \<lparr>cfg = cfg0, rng = 0, cards = [], supply = [], pool = [], pool_discard = [],
            players = [player0], turn = 0, current_player = 0, field_capacity = fields0,
            field_occupancy = map (\<lambda>kv. (fst kv, 0)) fields0,
            forage_yield_bonus_this_round = 0, hand_size_delta_next_round = [(0, 0)],
            blight_compost_at_end = False, first_to_three_domains_claimed = False,
            start_player = 0, turn_order = [], initiative_pid = None, log = []\<rparr>"

definition no_shuffle :: shuffle where
  \<comment> \<open>a generator whose shuffle leaves the list as it is\<close>
  "no_shuffle r xs = (xs, Suc r)"

definition critter :: card where
  "critter = \<lparr>card_id = ''c1'', card_name = ''Vole'', buy_cost_plasma = 2,
              play_cost = [(''plasma'', 1), (''ash'', 2)], card_type = ''Critter'',
              domain = ''None'', mat_points = 1, can_play_on_mat = True, effect = []\<rparr>"

definition mat_player :: player where
  \<comment> \<open>slots 2 and 4 hold a Critter: two discount conditions at once\<close>
  "mat_player = player0\<lparr>mat := [(2, ''c1''), (4, ''c1'')]\<rparr>"

definition stuck_player :: player where
  \<comment> \<open>one plasma, one shards and a VP:1 token: the fixed part of the play cost is payable,
      and so is one choice unit before the fixed part is paid, but not after\<close>
  "stuck_player = player0\<lparr>hand := [''VP:1''],
      resources := [(''plasma'', 1), (''ash'', 0), (''shards'', 1), (''nut'', 0), (''berry'', 0),
                    (''mushroom'', 0)]\<rparr>"

definition stuck_game :: game where
  "stuck_game = game0\<lparr>players := [stuck_player]\<rparr>"

definition buy_game :: game where
  \<comment> \<open>one card in the market window, one more copy in the supply\<close>
  "buy_game = game0\<lparr>cards := [(''c1'', critter)], pool := [''c1''], supply := [''c1''],
                     players := [player0\<lparr>resources := [(''plasma'', 1)]\<rparr>]\<rparr>"

definition decree :: card where
  "decree = \<lparr>card_id = ''g1'', card_name = ''Long Night'', buy_cost_plasma = 2, play_cost = [],
             card_type = ''Global'', domain = ''None'', mat_points = 0, can_play_on_mat = False,
             effect = ''hand_size_delta_next_round:+1''\<rparr>"

definition delta_game :: game where
  "delta_game = game0\<lparr>cards := [(''g1'', decree)],
      players := [player0\<lparr>hand := [''g1''],
                          deck := [''RES:plasma'', ''RES:plasma'', ''RES:plasma'', ''RES:plasma'',
                                   ''RES:plasma'', ''RES:plasma'', ''VP:1'', ''VP:1'']\<rparr>]\<rparr>"

definition played_game :: game where
  \<comment> \<open>\<open>delta_game\<close> after its player has played the card \<open>g1\<close>\<close>
  "played_game = delta_game\<lparr>
      players := [player0\<lparr>deck := [''RES:plasma'', ''RES:plasma'', ''RES:plasma'', ''RES:plasma'',
                                   ''RES:plasma'', ''RES:plasma'', ''VP:1'', ''VP:1''],
                          discard := [''g1''], first_play_turn := [(''g1'', 0)]\<rparr>],
      log := [[(''a'', S ''play_card''), (''p'', I 0), (''cid'', S ''g1''),
               (''name'', S ''Long Night''), (''to_mat'', B False)]]\<rparr>"

definition res_game :: game where
  \<comment> \<open>a player whose hand is one plasma token\<close>
  "res_game = game0\<lparr>players := [player0\<lparr>hand := [''RES:plasma'']\<rparr>]\<rparr>"

definition mat_game :: game where
  \<comment> \<open>a player who can pay for the card in hand and has an empty mat\<close>
  "mat_game = game0\<lparr>cards := [(''c1'', critter)],
      players := [player0\<lparr>hand := [''c1''],
                          resources := [(''plasma'', 1), (''ash'', 2)]\<rparr>]\<rparr>"

text \<open>
  The states of a round: the state \<open>start_of_round\<close> leaves, and every state an applied
  action leads to from there.
\<close>

inductive in_round :: "shuffle \<Rightarrow> game \<Rightarrow> game \<Rightarrow> bool" for sh :: shuffle and g0 :: game where
  at_start: "in_round sh g0 (start_of_round sh g0)"
| after_action: "in_round sh g0 g \<Longrightarrow> apply_action sh g pid a = Inr g' \<Longrightarrow> in_round sh g0 g'"

definition occ_ok :: "game \<Rightarrow> bool" where
  \<comment> \<open>no field is occupied beyond its capacity\<close>
  "occ_ok g = (\<forall>f. get0 (field_occupancy g) f \<le> get0 (field_capacity g) f)"

definition res_ok :: "game \<Rightarrow> bool" where
  \<comment> \<open>every resource counter of every player is at least 0\<close>
  "res_ok g = list_all (\<lambda>p. nonneg_cost (resources p)) (players g)"

definition dicts_ok :: "game \<Rightarrow> bool" where
  \<comment> \<open>the cost dictionaries of the library and of the configuration have distinct keys, as Python dictionaries do\<close>
  "dicts_ok g =
     (list_all (\<lambda>kc. is_dict (play_cost (snd kc))) (cards g)
      \<and> is_dict (fixed (vp1_play_cost (cfg g))) \<and> is_dict (fixed (vp3_play_cost (cfg g))))"

definition tokens_apart :: "game \<Rightarrow> bool" where
  \<comment> \<open>no card id of the library is the name of a resource token\<close>
  "tokens_apart g = list_all (\<lambda>kc. \<not> startswith (fst kc) ''RES:'') (cards g)"

definition static :: "game \<Rightarrow> game \<Rightarrow> bool" where
  \<comment> \<open>the library, the configuration and the forage bonus are the same in both states\<close>
  "static g g' = (cards g' = cards g \<and> cfg g' = cfg g
     \<and> forage_yield_bonus_this_round g' = forage_yield_bonus_this_round g)"

definition collide_card :: card where
  \<comment> \<open>a library card whose id is the name of the plasma token\<close>
  "collide_card = \<lparr>card_id = ''RES:plasma'', card_name = ''Plasma Well'', buy_cost_plasma = 2,
                   play_cost = [(''plasma'', 1)], card_type = ''Farm'', domain = ''None'',
                   mat_points = 0, can_play_on_mat = True, effect = []\<rparr>"

definition collide_game :: game where
  "collide_game = game0\<lparr>cards := [(''RES:plasma'', collide_card)],
                         players := [player0\<lparr>hand := [''RES:plasma'']\<rparr>]\<rparr>"

definition lean_game :: game where
  \<comment> \<open>a state with a negative forage bonus\<close>
  "lean_game = game0\<lparr>forage_yield_bonus_this_round := - 3\<rparr>"

section \<open>Properties\<close>

subsection \<open>Dictionaries\<close>

lemma get0_update: "get0 (AList.update k v d) k' = (if k' = k then v else get0 d k')"
  by (simp add: get0_def update_conv')

lemma get0_delete: "get0 (AList.delete k d) k' = (if k' = k then 0 else get0 d k')"
  by (simp add: get0_def delete_conv')

lemma get0_nonzero_in: "get0 d k \<noteq> 0 \<Longrightarrow> map_of d k = Some (get0 d k)"
  by (auto simp: get0_def split: option.splits)

lemma total_units_update:
  "is_dict d \<Longrightarrow> map_of d k = Some v \<Longrightarrow> total_units (AList.update k w d) = total_units d - v + w"
  unfolding is_dict_def total_units_def
  by (induction d) (auto simp: rev_image_eqI)

lemma total_units_delete:
  "is_dict d \<Longrightarrow> map_of d k = Some v \<Longrightarrow> total_units (AList.delete k d) = total_units d - v"
  unfolding is_dict_def total_units_def
  by (induction d) (auto simp: rev_image_eqI)

lemma nonneg_get0: "nonneg_cost d \<Longrightarrow> 0 \<le> get0 d k"
  unfolding nonneg_cost_def get0_def
  by (auto split: option.splits dest!: map_of_SomeD simp: list_all_iff)

lemma find_holds: "find P ks = Some k \<Longrightarrow> P k"
  by (induction ks) (auto split: if_splits)

subsection \<open>Mat discount\<close>

lemma discount_loop_find:
  "nonneg_cost cost \<Longrightarrow> discount_loop ks cost =
     (case find (\<lambda>k. get0 cost k \<noteq> 0) ks of
        None \<Rightarrow> cost
      | Some k \<Rightarrow> (if get0 cost k - 1 = 0 then AList.delete k cost
                   else AList.update k (get0 cost k - 1) cost))"
proof (induction ks)
  case Nil
  then show ?case by simp
next
  case (Cons k ks)
  have nn: "0 \<le> get0 cost k" using Cons.prems by (rule nonneg_get0)
  show ?case
  proof (cases "get0 cost k > 0")
    case True
    then show ?thesis using nn
      by (auto simp: Let_def get0_update delete_update_same)
  next
    case False
    then have "get0 cost k = 0" using nn by simp
    then show ?thesis using Cons by simp
  qed
qed

lemma total_discount_range:
  "0 \<le> total_discount_for_card lib p c \<and> total_discount_for_card lib p c \<le> 1"
  by (simp add: total_discount_for_card_def Let_def)

lemma discount_spec_units:
  assumes "is_dict cost" "nonneg_cost cost"
  shows "total_units cost - 1 \<le> total_units (discount_spec cost)
         \<and> total_units (discount_spec cost) \<le> total_units cost"
proof (cases "first_nonzero cost")
  case None
  then show ?thesis by (simp add: discount_spec_def)
next
  case (Some k)
  then have "get0 cost k \<noteq> 0" unfolding first_nonzero_def by (rule find_holds)
  then have v: "map_of cost k = Some (get0 cost k)" by (rule get0_nonzero_in)
  show ?thesis using Some v assms(1)
    by (simp add: discount_spec_def total_units_update total_units_delete)
qed

lemma discount_spec_entries:
  assumes "nonneg_cost cost"
  shows "0 \<le> get0 (discount_spec cost) k \<and> get0 (discount_spec cost) k \<le> get0 cost k"
proof (cases "first_nonzero cost")
  case None
  then show ?thesis using nonneg_get0[OF assms] by (simp add: discount_spec_def)
next
  case (Some k')
  then have "get0 cost k' \<noteq> 0" unfolding first_nonzero_def by (rule find_holds)
  then have "0 < get0 cost k'" using nonneg_get0[OF assms, of k'] by simp
  then show ?thesis using Some nonneg_get0[OF assms, of k]
    by (auto simp: discount_spec_def get0_update get0_delete)
qed

text \<open>
  C2. For every player and every card, the mat discount is 0 or 1 however many discount
  conditions hold; the discounted cost is the card's cost when the discount is 0 and
  otherwise the cost with one unit taken from the first resource, in the order plasma,
  ash, shards, nut, berry, mushroom, that has a nonzero entry, the entry being removed
  when it reaches zero; the total of the cost falls by at most 1, and no entry falls
  below 0 or rises. Cost amounts are taken to be non-negative, as amounts are.
\<close>

theorem discount_at_most_one_unit:
  assumes "is_dict (play_cost c)" and "nonneg_cost (play_cost c)"
  shows "0 \<le> total_discount_for_card lib p c \<and> total_discount_for_card lib p c \<le> 1
    \<and> discounted_cost c (total_discount_for_card lib p c)
        = (if total_discount_for_card lib p c = 0 then play_cost c
           else discount_spec (play_cost c))
    \<and> total_units (play_cost c) - 1
        \<le> total_units (discounted_cost c (total_discount_for_card lib p c))
    \<and> total_units (discounted_cost c (total_discount_for_card lib p c))
        \<le> total_units (play_cost c)
    \<and> (\<forall>k. 0 \<le> get0 (discounted_cost c (total_discount_for_card lib p c)) k
           \<and> get0 (discounted_cost c (total_discount_for_card lib p c)) k
               \<le> get0 (play_cost c) k)"
proof -
  let ?d = "total_discount_for_card lib p c"
  have r: "0 \<le> ?d \<and> ?d \<le> 1" by (rule total_discount_range)
  have eq: "discounted_cost c ?d = (if ?d = 0 then play_cost c else discount_spec (play_cost c))"
    using r assms(2)
    by (auto simp: discounted_cost_def discount_spec_def first_nonzero_def discount_loop_find)
  show ?thesis
    using r eq discount_spec_units[OF assms] discount_spec_entries[OF assms(2)]
      nonneg_get0[OF assms(2)]
    by auto
qed

theorem discount_at_most_one_unit_witness:
  "is_dict (play_cost critter) \<and> nonneg_cost (play_cost critter)
   \<and> total_discount_for_card [(''c1'', critter)] mat_player critter = 1
   \<and> discounted_cost critter (total_discount_for_card [(''c1'', critter)] mat_player critter)
        = [(''ash'', 2)]
   \<and> total_units (play_cost critter) = 3
   \<and> total_units (discounted_cost critter
         (total_discount_for_card [(''c1'', critter)] mat_player critter)) = 2"
proof -
  have d: "is_dict (play_cost critter)" by (simp add: critter_def is_dict_def)
  have n: "nonneg_cost (play_cost critter)" by (simp add: critter_def nonneg_cost_def)
  have t: "total_discount_for_card [(''c1'', critter)] mat_player critter = 1"
    by (simp add: total_discount_for_card_def slot2_type_def mat_player_def player0_def critter_def)
  have s: "discount_spec (play_cost critter) = [(''ash'', 2)]"
    by (simp add: discount_spec_def first_nonzero_def RES_def critter_def get0_def)
  have u: "total_units (play_cost critter) = 3" by (simp add: total_units_def critter_def)
  show ?thesis
    using discount_at_most_one_unit[OF d n, of "[(''c1'', critter)]" mat_player] d n t s u
    by (simp add: total_units_def)
qed

subsection \<open>Payment of a VP token's play cost\<close>

text \<open>
  C1. A play action whose cost cannot be paid should leave the game state unchanged. The
  player below holds one plasma, one shards and a VP:1 token, whose play cost is plasma 1,
  shards 1 and one unit of a choice: three units in all. The affordability test passes,
  the fixed part is paid, no choice unit is left, and the action ends with the token back
  in hand and both counters at 0: the state has changed.
\<close>

theorem vp_play_partial_payment:
  "can_pay_with_choice stuck_player (vp_play_cost stuck_game 1)
   \<and> apply_action no_shuffle stuck_game 0 (Play 0 False None)
       = Inr (stuck_game\<lparr>players := [stuck_player\<lparr>resources := res0\<rparr>]\<rparr>)
   \<and> apply_action no_shuffle stuck_game 0 (Play 0 False None) \<noteq> Inr stuck_game"
  by code_simp

subsection \<open>Buying from the market\<close>

text \<open>
  C4. Buying the only card of the market window while the supply still holds a card: the
  cost is paid and the card goes to the buyer's discard pile, but the window is left
  empty and the supply untouched, since engine/setup.py binds no \<open>refill_pool\<close>.
\<close>

theorem buy_pool_no_backfill:
  "map_sum id (\<lambda>g. (pool g, supply g, discard (players g ! 0),
                     get0 (resources (players g ! 0)) ''plasma''))
     (apply_action no_shuffle buy_game 0 (Buy_pool 0))
   = Inr ([], [''c1''], [''c1''], 0)"
  by code_simp

subsection \<open>Hand size delta\<close>

text \<open>
  C5. A card with the tag \<open>hand_size_delta_next_round:+1\<close> is played. Neither
  \<open>apply_global_effects\<close> on that tag nor the play action changes the pending delta,
  and after the round ends and the next one starts the player has drawn up to the base
  hand size, not to one more.
\<close>

theorem hand_size_delta_not_applied:
  "map_sum id hand_size_delta_next_round (apply_global_effects delta_game 0 (effect decree))
     = Inr [(0, 0)]
   \<and> apply_action no_shuffle delta_game 0 (Play 0 False None) = Inr played_game
   \<and> hand_size_delta_next_round played_game = [(0, 0)]
   \<and> int (length (hand (players (start_of_round no_shuffle (end_of_round played_game)) ! 0)))
       = hand_size (cfg played_game)"
  by code_simp

subsection \<open>Bot selection\<close>

text \<open>
  C8. Whatever the configuration says, \<open>_choose_action_for_cfg\<close> returns the greedy
  policy: bots/mcts.py binds no \<open>choose_action\<close>, so the import in loop.py fails and
  \<open>mcts_choose\<close> is \<open>None\<close>.
\<close>

theorem mcts_mode_ignored: "choose_action_for_cfg c = Greedy_choose"
  by (simp add: choose_action_for_cfg_def loop_mcts_choose_def loop_greedy_choose_def
      try_import_def mcts_defines_def greedy_defines_def)

subsection \<open>Resource tokens in hand\<close>

lemma legal_play_index:
  "Play j tm sl \<in> set (legal_play g pid i toks) \<Longrightarrow>
     i \<le> j \<and> j < i + int (length toks)
     \<and> (startswith (toks ! nat (j - i)) ''VP:'' \<or> map_of (cards g) (toks ! nat (j - i)) \<noteq> None)"
proof (induction toks arbitrary: i)
  case Nil
  then show ?case by simp
next
  case (Cons tok rest)
  show ?case
  proof (cases "Play j tm sl \<in> set (legal_play g pid (i + 1) rest)")
    case True
    from Cons.IH[OF True] have "i + 1 \<le> j" "j < i + 1 + int (length rest)"
      and t: "startswith (rest ! nat (j - (i + 1))) ''VP:'' \<or> map_of (cards g) (rest ! nat (j - (i + 1))) \<noteq> None"
      by auto
    moreover have "nat (j - i) = Suc (nat (j - (i + 1)))"
      using \<open>i + 1 \<le> j\<close> by linarith
    then have "(tok # rest) ! nat (j - i) = rest ! nat (j - (i + 1))"
      by simp
    ultimately show ?thesis by simp
  next
    case False
    with Cons.prems have "j = i \<and> (startswith tok ''VP:'' \<or> map_of (cards g) tok \<noteq> None)"
      by (auto simp: Let_def split: if_splits option.splits) metis+
    then show ?thesis by simp
  qed
qed

lemma no_play_buy_pool: "Play j tm sl \<notin> set (legal_buy_pool g pid i cs)"
  by (induction cs arbitrary: i) (auto split: option.splits)

lemma no_play_buy_vp: "Play j tm sl \<notin> set (legal_buy_vp g pid)"
  by (auto simp: legal_buy_vp_def Let_def)

lemma no_play_worker: "Play j tm sl \<notin> set (legal_worker g pid)"
  by (auto simp: legal_worker_def)

lemma res_token_not_vp: "\<not> startswith (res_token r) ''VP:''"
  by (simp add: startswith_def res_token_def)

text \<open>
  C3, as the code has it. A resource token \<open>RES:<r>\<close> in hand, whose name is not a card
  id of the library, is not playable: \<open>legal_actions\<close> offers no play action for its
  index, and applying a play action on it leaves the game state unchanged: no resource
  counter is raised and the token stays in hand.
\<close>

theorem resource_token_not_playable:
  assumes "pid < length (players g)"
    and "i < length (hand (players g ! pid))"
    and "hand (players g ! pid) ! i = res_token r"
    and "map_of (cards g) (res_token r) = None"
  shows "(\<exists>acts. legal_actions g pid = Inr acts \<and> (\<forall>tm sl. Play (int i) tm sl \<notin> set acts))
    \<and> apply_action sh g pid (Play (int i) tm sl) = Inr g"
proof -
  have np: "Play (int i) tm' sl' \<notin> set (legal_play g pid 0 (hand (players g ! pid)))" for tm' sl'
  proof
    assume "Play (int i) tm' sl' \<in> set (legal_play g pid 0 (hand (players g ! pid)))"
    from legal_play_index[OF this] assms(3,4) res_token_not_vp[of r]
    show False by simp
  qed
  have a: "\<exists>acts. legal_actions g pid = Inr acts \<and> (\<forall>tm sl. Play (int i) tm sl \<notin> set acts)"
    using assms(1) np no_play_buy_pool no_play_buy_vp no_play_worker
    by (simp add: legal_actions_def)
  have b: "apply_action sh g pid (Play (int i) tm sl) = Inr g"
    using assms res_token_not_vp[of r] by (simp add: act_play_def Let_def)
  show ?thesis using a b by blast
qed

theorem resource_token_play_counterexample:
  "legal_actions res_game 0
     = Inr [Buy_vp 1, Worker ''plasma'', Worker ''ash'', Worker ''shards'', Worker ''forage'',
            Worker ''rookery'', Worker ''compost'', Worker ''initiative'', Pass]
   \<and> apply_action no_shuffle res_game 0 (Play 0 False None) = Inr res_game
   \<and> get0 (resources (players res_game ! 0)) ''plasma'' = 0
   \<and> discard (players res_game ! 0) = []"
  by code_simp

theorem resource_token_not_playable_witness:
  "0 < length (players res_game) \<and> 0 < length (hand (players res_game ! 0))
   \<and> hand (players res_game ! 0) ! 0 = res_token ''plasma''
   \<and> map_of (cards res_game) (res_token ''plasma'') = None
   \<and> (\<exists>acts. legal_actions res_game 0 = Inr acts
         \<and> (\<forall>tm sl. Play (int 0) tm sl \<notin> set acts))
   \<and> apply_action no_shuffle res_game 0 (Play (int 0) False None) = Inr res_game"
proof -
  have h: "0 < length (players res_game)" "0 < length (hand (players res_game ! 0))"
    "hand (players res_game ! 0) ! 0 = res_token ''plasma''"
    "map_of (cards res_game) (res_token ''plasma'') = None"
    by (simp_all add: res_game_def game0_def player0_def res_token_def)
  show ?thesis
    using resource_token_not_playable[OF h, of no_shuffle False None] h by simp
qed

subsection \<open>Frame lemmas\<close>

lemma players_emit [simp]: "players (emit g e) = players g"
  by (simp add: emit_def)

lemma players_set_player [simp]: "players (set_player g pid p) = (players g)[pid := p]"
  by (simp add: set_player_def)

lemma remove_res_frame [simp]:
  "mat (fst (remove_res_tokens_from_hand p k n)) = mat p"
  "discard (fst (remove_res_tokens_from_hand p k n)) = discard p"
  "resources (fst (remove_res_tokens_from_hand p k n)) = resources p"
  by (simp_all add: remove_res_tokens_from_hand_def split: prod.splits)

lemma remove_res_pair:
  "remove_res_tokens_from_hand p k n = (p1, u) \<Longrightarrow>
     mat p1 = mat p \<and> discard p1 = discard p \<and> resources p1 = resources p"
  by (auto simp: remove_res_tokens_from_hand_def split: prod.splits if_splits)

lemma pay_mixed_mat [simp]: "mat (pay_mixed p cost pf) = mat p"
  by (induction p cost pf rule: pay_mixed.induct)
     (auto simp: Let_def split: prod.splits dest: remove_res_pair)

lemma pay_mixed_discard [simp]: "discard (pay_mixed p cost pf) = discard p"
  by (induction p cost pf rule: pay_mixed.induct)
     (auto simp: Let_def split: prod.splits dest: remove_res_pair)

lemma grant_resources_frame [simp]:
  "mat (grant_resources p gs) = mat p" "discard (grant_resources p gs) = discard p"
  by (induction p gs rule: grant_resources.induct) simp_all

lemma compost_length [simp]: "length (players (compost_from_hand g pid i r)) = length (players g)"
  by (simp add: compost_from_hand_def Let_def split: option.splits)

lemma compost_mat_discard:
  "pid < length (players g) \<Longrightarrow>
     mat (players (compost_from_hand g pid i r) ! pid) = mat (players g ! pid)
     \<and> discard (players (compost_from_hand g pid i r) ! pid) = discard (players g ! pid)"
  by (simp add: compost_from_hand_def Let_def split: option.splits)


subsection \<open>Playing a card to the mat\<close>

text \<open>
  C6, as the code has it. When a library card in hand is played to a mat slot (the cost is
  payable, the card may be placed on the mat, the slot is given, nonzero and free), the
  card's id occupies that slot and is also appended to the same player's discard pile.
\<close>

theorem mat_play_also_discards:
  assumes "pid < length (players g)"
    and "0 \<le> i" and "i < int (length (hand (players g ! pid)))"
    and "\<not> startswith (hand (players g ! pid) ! nat i) ''VP:''"
    and "map_of (cards g) (hand (players g ! pid) ! nat i) = Some c"
    and "affordable_now g pid c"
    and "can_play_on_mat c" and "s \<noteq> 0" and "map_of (mat (players g ! pid)) s = None"
  shows "\<exists>g'. apply_action sh g pid (Play i True (Some s)) = Inr g'
    \<and> map_of (mat (players g' ! pid)) s = Some (card_id c)
    \<and> discard (players g' ! pid) = discard (players g ! pid) @ [card_id c]"
proof -
  let ?p = "players g ! pid"
  let ?eff = "discounted_cost c (total_discount_for_card (cards g) ?p c)"
  let ?p2 = "pay_mixed (?p\<lparr>hand := pop_at (hand ?p) (nat i)\<rparr>) ?eff True"
  have pay: "can_pay_mixed ?p ?eff"
    using assms(6) by (simp add: affordable_now_def Let_def)
  have tgt: "mat_target True c (Some s) ?p2 = Some s"
    using assms(7,8,9) by (simp add: mat_target_def)
  have run: "apply_action sh g pid (Play i True (Some s)) = Inr (act_play_card g pid (nat i) c True (Some s))"
    using assms(1-5) by (simp add: act_play_def Let_def)
  have m: "map_of (mat (players (act_play_card g pid (nat i) c True (Some s)) ! pid)) s = Some (card_id c)"
    using assms(1) pay tgt
    by (simp add: act_play_card_def Let_def compost_mat_discard update_conv')
  have d: "discard (players (act_play_card g pid (nat i) c True (Some s)) ! pid)
      = discard ?p @ [card_id c]"
    using assms(1) pay tgt
    by (simp add: act_play_card_def Let_def compost_mat_discard)
  show ?thesis using run m d by simp
qed

theorem mat_play_counterexample:
  "map_sum id (\<lambda>g. (map_of (mat (players g ! 0)) 1, discard (players g ! 0)))
     (apply_action no_shuffle mat_game 0 (Play 0 True (Some 1)))
   = Inr (Some ''c1'', [''c1''])"
  by code_simp

theorem mat_play_also_discards_witness:
  "0 < length (players mat_game) \<and> affordable_now mat_game 0 critter
   \<and> (\<exists>g'. apply_action no_shuffle mat_game 0 (Play 0 True (Some 1)) = Inr g'
         \<and> map_of (mat (players g' ! 0)) 1 = Some ''c1''
         \<and> discard (players g' ! 0) = [''c1''])"
proof -
  have a: "affordable_now mat_game 0 critter" by code_simp
  have h: "0 < length (players mat_game)" "(0::int) \<le> 0"
    "0 < int (length (hand (players mat_game ! 0)))"
    "\<not> startswith (hand (players mat_game ! 0) ! nat 0) ''VP:''"
    "map_of (cards mat_game) (hand (players mat_game ! 0) ! nat 0) = Some critter"
    by (simp_all add: mat_game_def game0_def player0_def startswith_def)
  have k: "can_play_on_mat critter" "(1::int) \<noteq> 0" "map_of (mat (players mat_game ! 0)) 1 = None"
    by (simp_all add: mat_game_def game0_def player0_def critter_def)
  have "card_id critter = ''c1''" "discard (players mat_game ! 0) = []"
    by (simp_all add: mat_game_def game0_def player0_def critter_def)
  then show ?thesis
    using mat_play_also_discards[OF h a k, of no_shuffle] h(1) a by simp
qed

subsection \<open>Fields are touched by worker placement and round start only\<close>

lemma fields_emit [simp]:
  "field_capacity (emit g e) = field_capacity g" "field_occupancy (emit g e) = field_occupancy g"
  by (simp_all add: emit_def)

lemma fields_set_player [simp]:
  "field_capacity (set_player g pid p) = field_capacity g"
  "field_occupancy (set_player g pid p) = field_occupancy g"
  by (simp_all add: set_player_def)

lemma fields_draw [simp]:
  "field_capacity (draw sh g i n) = field_capacity g"
  "field_occupancy (draw sh g i n) = field_occupancy g"
  by (induction sh g i n rule: draw.induct; simp add: Let_def split: prod.splits)+

lemma fields_draw_to_hand_size [simp]:
  "field_capacity (draw_to_hand_size sh g i t) = field_capacity g"
  "field_occupancy (draw_to_hand_size sh g i t) = field_occupancy g"
  by (simp_all add: draw_to_hand_size_def Let_def)

lemma fields_compost [simp]:
  "field_capacity (compost_from_hand g pid i r) = field_capacity g"
  "field_occupancy (compost_from_hand g pid i r) = field_occupancy g"
  by (simp_all add: compost_from_hand_def Let_def split: option.splits)

lemma fields_gain [simp]:
  "field_capacity (gain g pid k n) = field_capacity g"
  "field_occupancy (gain g pid k n) = field_occupancy g"
  by (simp_all add: gain_def Let_def)

lemma fields_claim [simp]:
  "field_capacity (fst (claim_initiative g pid)) = field_capacity g"
  "field_occupancy (fst (claim_initiative g pid)) = field_occupancy g"
  by (simp_all add: claim_initiative_def)

lemma fields_field_effect [simp]:
  "field_capacity (field_effect sh g pid f) = field_capacity g"
  "field_occupancy (field_effect sh g pid f) = field_occupancy g"
  by (simp_all add: field_effect_def del: draw.simps)

lemma fields_act_play:
  "act_play g pid i tm sl = Inr g' \<Longrightarrow>
     field_capacity g' = field_capacity g \<and> field_occupancy g' = field_occupancy g"
  by (auto simp: act_play_def act_play_vp_def act_play_card_def Let_def
      split: if_splits option.splits prod.splits)

lemma fields_act_buy_pool:
  "act_buy_pool g pid j = Inr g' \<Longrightarrow>
     field_capacity g' = field_capacity g \<and> field_occupancy g' = field_occupancy g"
  by (auto simp: act_buy_pool_def setup_defines_def Let_def split: if_splits option.splits)

lemma fields_act_buy_vp:
  "act_buy_vp g pid v = Inr g' \<Longrightarrow>
     field_capacity g' = field_capacity g \<and> field_occupancy g' = field_occupancy g"
  by (auto simp: act_buy_vp_def Let_def split: if_splits)

lemma act_worker_fields:
  "act_worker sh g pid f = Inr g' \<Longrightarrow>
     field_capacity g' = field_capacity g
     \<and> (g' = g \<or> (get0 (field_occupancy g) f < get0 (field_capacity g) f
                  \<and> field_occupancy g' = AList.update f (get0 (field_occupancy g) f + 1) (field_occupancy g)))"
  by (auto simp: act_worker_def Let_def split: if_splits)

lemma apply_action_fields:
  assumes "apply_action sh g pid a = Inr g'" and "occ_ok g"
  shows "field_capacity g' = field_capacity g \<and> occ_ok g'"
proof (cases a)
  case (Play i tm sl)
  then show ?thesis using assms fields_act_play[of g pid i tm sl g'] by (simp add: occ_ok_def)
next
  case (Buy_pool j)
  then show ?thesis using assms fields_act_buy_pool[of g pid j g'] by (simp add: occ_ok_def)
next
  case (Buy_vp v)
  then show ?thesis using assms fields_act_buy_vp[of g pid v g'] by (simp add: occ_ok_def)
next
  case (Worker f)
  then have w: "act_worker sh g pid f = Inr g'" using assms(1) by simp
  from act_worker_fields[OF w] assms(2) show ?thesis
    by (auto simp: occ_ok_def get0_update)
next
  case Pass
  then show ?thesis using assms by (auto simp: occ_ok_def)
next
  case (Other k)
  then show ?thesis using assms by (auto simp: occ_ok_def)
qed

lemma fields_round_start_players [simp]:
  "field_capacity (round_start_players sh g is) = field_capacity g"
  "field_occupancy (round_start_players sh g is) = field_occupancy g"
  by (induction sh g "is" rule: round_start_players.induct; simp add: Let_def)+

lemma fields_turn_order [simp]:
  "field_capacity (set_turn_order_for_round g) = field_capacity g"
  "field_occupancy (set_turn_order_for_round g) = field_occupancy g"
  by (simp_all add: set_turn_order_for_round_def Let_def)

lemma get0_zero_map [simp]: "get0 (map (\<lambda>kv. (fst kv, 0)) d) f = 0"
  by (induction d) (auto simp: get0_def)

lemma start_of_round_fields:
  "field_capacity (start_of_round sh g) = field_capacity g
   \<and> field_occupancy (start_of_round sh g) = map (\<lambda>kv. (fst kv, 0)) (field_capacity g)"
  by (simp add: start_of_round_def Let_def normalize_field_occupancy_def clear_round_occupancy_def)

lemma in_round_ok:
  assumes "nonneg_cost (field_capacity g0)" and "in_round sh g0 g"
  shows "field_capacity g = field_capacity g0 \<and> occ_ok g"
  using assms(2)
proof (induction rule: in_round.induct)
  case at_start
  show ?case using nonneg_get0[OF assms(1)] by (simp add: start_of_round_fields occ_ok_def)
next
  case (after_action g pid a g')
  then show ?case using apply_action_fields[of sh g pid a g'] by simp
qed

lemma no_worker_play: "Worker f \<notin> set (legal_play g pid i toks)"
  by (induction toks arbitrary: i) (auto simp: Let_def split: option.splits)

lemma no_worker_buy_pool: "Worker f \<notin> set (legal_buy_pool g pid i cs)"
  by (induction cs arbitrary: i) (auto split: option.splits)

lemma no_worker_buy_vp: "Worker f \<notin> set (legal_buy_vp g pid)"
  by (auto simp: legal_buy_vp_def Let_def)

lemma legal_worker_free:
  assumes "is_dict (field_capacity g)"
    and "legal_actions g pid = Inr acts" and "Worker f \<in> set acts"
  shows "get0 (field_occupancy g) f < get0 (field_capacity g) f"
proof -
  have "Worker f \<in> set (legal_worker g pid)"
    using assms(2,3) no_worker_play no_worker_buy_pool no_worker_buy_vp
    by (auto simp: legal_actions_def split: if_splits)
  then obtain b where b: "(f, b) \<in> set (field_capacity g)" "get0 (field_occupancy g) f < b"
    by (auto simp: legal_worker_def split: if_splits)
  have "map_of (field_capacity g) f = Some b"
    using assms(1) b(1) by (simp add: is_dict_def)
  then show ?thesis using b(2) by (simp add: get0_def)
qed

text \<open>
  C7. Immediately after \<open>start_of_round\<close> every field's occupancy is 0. In every state
  of a round (reached from there by applied actions) no field's occupancy exceeds its
  capacity, capacities being counts, that is non-negative. A worker action is legal only
  on a field whose occupancy is below its capacity, and a worker action that is applied
  finds the field below capacity, raises its occupancy by exactly 1 and leaves every
  other field's occupancy as it was.
\<close>

theorem field_occupancy_bounded:
  assumes "nonneg_cost (field_capacity g0)"
  shows "(\<forall>f. get0 (field_occupancy (start_of_round sh g0)) f = 0)
    \<and> (\<forall>g f. in_round sh g0 g \<longrightarrow> get0 (field_occupancy g) f \<le> get0 (field_capacity g) f)
    \<and> (\<forall>g pid acts f. is_dict (field_capacity g) \<longrightarrow> legal_actions g pid = Inr acts \<longrightarrow>
          Worker f \<in> set acts \<longrightarrow> get0 (field_occupancy g) f < get0 (field_capacity g) f)
    \<and> (\<forall>g pid f g'. apply_action sh g pid (Worker f) = Inr g' \<longrightarrow> g' \<noteq> g \<longrightarrow>
          get0 (field_occupancy g) f < get0 (field_capacity g) f
          \<and> get0 (field_occupancy g') f = get0 (field_occupancy g) f + 1
          \<and> (\<forall>f'. f' \<noteq> f \<longrightarrow> get0 (field_occupancy g') f' = get0 (field_occupancy g) f'))"
proof -
  have a: "\<forall>f. get0 (field_occupancy (start_of_round sh g0)) f = 0"
    by (simp add: start_of_round_fields)
  have b: "\<forall>g f. in_round sh g0 g \<longrightarrow> get0 (field_occupancy g) f \<le> get0 (field_capacity g) f"
  proof (intro allI impI)
    fix g f
    assume "in_round sh g0 g"
    from in_round_ok[OF assms this] have "occ_ok g" by (rule conjunct2)
    then show "get0 (field_occupancy g) f \<le> get0 (field_capacity g) f"
      unfolding occ_ok_def by (rule spec)
  qed
  have c: "\<forall>g pid acts f. is_dict (field_capacity g) \<longrightarrow> legal_actions g pid = Inr acts \<longrightarrow>
          Worker f \<in> set acts \<longrightarrow> get0 (field_occupancy g) f < get0 (field_capacity g) f"
    using legal_worker_free by blast
  have d: "\<forall>g pid f g'. apply_action sh g pid (Worker f) = Inr g' \<longrightarrow> g' \<noteq> g \<longrightarrow>
          get0 (field_occupancy g) f < get0 (field_capacity g) f
          \<and> get0 (field_occupancy g') f = get0 (field_occupancy g) f + 1
          \<and> (\<forall>f'. f' \<noteq> f \<longrightarrow> get0 (field_occupancy g') f' = get0 (field_occupancy g) f')"
  proof (intro allI impI)
    fix g pid f g'
    assume "apply_action sh g pid (Worker f) = Inr g'" and ne: "g' \<noteq> g"
    then have "act_worker sh g pid f = Inr g'" by simp
    from act_worker_fields[OF this] ne
    show "get0 (field_occupancy g) f < get0 (field_capacity g) f
          \<and> get0 (field_occupancy g') f = get0 (field_occupancy g) f + 1
          \<and> (\<forall>f'. f' \<noteq> f \<longrightarrow> get0 (field_occupancy g') f' = get0 (field_occupancy g) f')"
      by (auto simp: get0_update)
  qed
  show ?thesis using a b c d by blast
qed

theorem field_occupancy_bounded_witness:
  "nonneg_cost (field_capacity game0)
   \<and> in_round no_shuffle game0 (start_of_round no_shuffle game0)
   \<and> (\<forall>f. get0 (field_occupancy (start_of_round no_shuffle game0)) f = 0)
   \<and> (\<exists>g1. apply_action no_shuffle (start_of_round no_shuffle game0) 0 (Worker ''plasma'') = Inr g1
         \<and> in_round no_shuffle game0 g1
         \<and> get0 (field_occupancy g1) ''plasma'' = 1
         \<and> get0 (field_occupancy g1) ''plasma'' \<le> get0 (field_capacity g1) ''plasma'')"
proof -
  have n: "nonneg_cost (field_capacity game0)"
    by (simp add: game0_def fields0_def nonneg_cost_def)
  have r: "in_round no_shuffle game0 (start_of_round no_shuffle game0)" by (rule at_start)
  have e: "map_sum id (\<lambda>g. get0 (field_occupancy g) ''plasma'')
             (apply_action no_shuffle (start_of_round no_shuffle game0) 0 (Worker ''plasma'')) = Inr 1"
    by code_simp
  then obtain g1 where g1: "apply_action no_shuffle (start_of_round no_shuffle game0) 0 (Worker ''plasma'') = Inr g1"
    "get0 (field_occupancy g1) ''plasma'' = 1"
    by (cases "apply_action no_shuffle (start_of_round no_shuffle game0) 0 (Worker ''plasma'')") auto
  have r1: "in_round no_shuffle game0 g1" using r g1(1) by (rule after_action)
  show ?thesis
    using field_occupancy_bounded[OF n, of no_shuffle] n r r1 g1 by metis
qed

subsection \<open>Counters stay non-negative\<close>

lemma nonneg_update: "nonneg_cost d \<Longrightarrow> 0 \<le> v \<Longrightarrow> nonneg_cost (AList.update k v d)"
  unfolding nonneg_cost_def by (induction d) auto

lemma res_token_inj [simp]: "(res_token k = res_token k') = (k = k')"
  by (simp add: res_token_def)

lemma remove_loop_spec:
  "r \<le> n \<Longrightarrow> remove_loop tok h r n = (h', r') \<Longrightarrow>
     r' = min n (r + int (length (filter (\<lambda>t. t = tok) h)))
     \<and> (\<forall>t. t \<noteq> tok \<longrightarrow> filter (\<lambda>x. x = t) h' = filter (\<lambda>x. x = t) h)"
proof (induction h arbitrary: r h' r')
  case Nil
  then show ?case by simp
next
  case (Cons a h)
  show ?case
  proof (cases "r < n")
    case False
    then show ?thesis using Cons.prems by auto
  next
    case lt: True
    show ?thesis
    proof (cases "a = tok")
      case True
      then have "remove_loop tok h (r + 1) n = (h', r')" using Cons.prems lt by simp
      from Cons.IH[OF _ this] lt True show ?thesis by auto
    next
      case False
      then obtain h1 where h1: "remove_loop tok h r n = (h1, r')" "h' = a # h1"
        using Cons.prems lt by (auto split: prod.splits)
      from Cons.IH[OF Cons.prems(1) h1(1)] False h1(2) show ?thesis by auto
    qed
  qed
qed

lemma remove_res_spec:
  assumes "0 < n" and "remove_res_tokens_from_hand p k n = (p1, used)"
  shows "used = min n (count_res_tokens_in_hand p k) \<and> resources p1 = resources p
    \<and> (\<forall>k'. k' \<noteq> k \<longrightarrow> count_res_tokens_in_hand p1 k' = count_res_tokens_in_hand p k')"
proof -
  obtain h r where hr: "remove_loop (res_token k) (hand p) 0 n = (h, r)" by fastforce
  then have p1: "p1 = p\<lparr>hand := h\<rparr>" "used = r"
    using assms by (auto simp: remove_res_tokens_from_hand_def)
  from remove_loop_spec[OF _ hr] assms(1) p1 show ?thesis
    by (auto simp: count_res_tokens_in_hand_def)
qed

lemma can_pay_cong:
  "(\<forall>k \<in> fst ` set cost. available_amount p' k = available_amount p k) \<Longrightarrow>
     can_pay_mixed p' cost = can_pay_mixed p cost"
proof (induction cost)
  case Nil
  then show ?case by simp
next
  case (Cons kn rest)
  obtain k need where kn: "kn = (k, need)" by (cases kn)
  have "can_pay_mixed p' rest = can_pay_mixed p rest" using Cons by simp
  moreover have "available_amount p' k = available_amount p k" using Cons.prems kn by simp
  ultimately show ?case using kn by simp
qed

lemma pay_mixed_nonneg:
  "is_dict cost \<Longrightarrow> can_pay_mixed p cost \<Longrightarrow> nonneg_cost (resources p) \<Longrightarrow>
     nonneg_cost (resources (pay_mixed p cost True))"
proof (induction cost arbitrary: p)
  case Nil
  then show ?case by simp
next
  case (Cons kn rest)
  obtain k need where kn: "kn = (k, need)" by (cases kn)
  have dr: "is_dict rest" and knr: "k \<notin> fst ` set rest"
    using Cons.prems(1) kn by (auto simp: is_dict_def)
  show ?case
  proof (cases "k = choice_key \<or> need \<le> 0")
    case True
    then have "can_pay_mixed p rest" using Cons.prems(2) kn by (auto split: if_splits)
    from Cons.IH[OF dr this Cons.prems(3)] True kn show ?thesis by auto
  next
    case False
    then have pos: "0 < need" and nk: "k \<noteq> choice_key" by auto
    have av: "need \<le> available_amount p k" and cr: "can_pay_mixed p rest"
      using Cons.prems(2) kn nk by (auto split: if_splits)
    obtain p1 used where ru: "remove_res_tokens_from_hand p k need = (p1, used)" by fastforce
    note sp = remove_res_spec[OF pos ru]
    define p2 where "p2 = (if need - used > 0
        then p1\<lparr>resources := AList.update k (get0 (resources p1) k - (need - used)) (resources p1)\<rparr>
        else p1)"
    have eq: "pay_mixed p (kn # rest) True = pay_mixed p2 rest True"
      using kn nk pos ru by (simp add: p2_def Let_def)
    have nn2: "nonneg_cost (resources p2)"
    proof (cases "need - used > 0")
      case True
      then have "used = count_res_tokens_in_hand p k" using sp by auto
      then have "0 \<le> get0 (resources p1) k - (need - used)"
        using av sp by (simp add: available_amount_def)
      then show ?thesis using True sp Cons.prems(3) by (simp add: p2_def nonneg_update)
    next
      case False
      then show ?thesis using sp Cons.prems(3) by (simp add: p2_def)
    qed
    have "\<forall>k' \<in> fst ` set rest. available_amount p2 k' = available_amount p k'"
    proof
      fix k' assume "k' \<in> fst ` set rest"
      then have ne: "k' \<noteq> k" using knr by auto
      have "count_res_tokens_in_hand p2 k' = count_res_tokens_in_hand p k'"
        using sp ne by (simp add: p2_def count_res_tokens_in_hand_def)
      moreover have "get0 (resources p2) k' = get0 (resources p) k'"
        using sp ne by (simp add: p2_def get0_update)
      ultimately show "available_amount p2 k' = available_amount p k'"
        by (simp add: available_amount_def)
    qed
    then have "can_pay_mixed p2 rest" using cr can_pay_cong by blast
    from Cons.IH[OF dr this nn2] eq show ?thesis by simp
  qed
qed

lemma can_pay_filter:
  "can_pay_mixed p (filter (\<lambda>kv. fst kv \<noteq> choice_key) cost) = can_pay_mixed p cost"
proof (induction cost)
  case Nil
  then show ?case by simp
next
  case (Cons kn rest)
  obtain k need where kn: "kn = (k, need)" by (cases kn)
  show ?case using Cons kn by simp
qed

lemma is_dict_filter: "is_dict d \<Longrightarrow> is_dict (filter P d)"
  by (simp add: is_dict_def distinct_map_filter)

lemma choose_loop_avail:
  "(\<forall>b bt. acc = Some (b, bt) \<longrightarrow> 1 \<le> available_amount p b) \<Longrightarrow>
     choose_loop p cs acc = Some rk \<Longrightarrow> 1 \<le> available_amount p rk"
proof (induction cs arbitrary: acc)
  case Nil
  then show ?case by (cases acc) auto
next
  case (Cons c cs)
  show ?case
  proof (cases "available_amount p c < 1")
    case True
    then have "choose_loop p cs acc = Some rk" using Cons.prems(2) by (simp add: Let_def)
    from Cons.IH[OF Cons.prems(1) this] show ?thesis .
  next
    case False
    let ?new = "Some (c, - count_res_tokens_in_hand p c, - available_amount p c)"
    have "choose_loop p cs acc = Some rk \<or> choose_loop p cs ?new = Some rk"
      using Cons.prems(2) False by (auto simp: Let_def split: if_splits)
    then show ?thesis
    proof
      assume "choose_loop p cs acc = Some rk"
      from Cons.IH[OF Cons.prems(1) this] show ?thesis .
    next
      assume a: "choose_loop p cs ?new = Some rk"
      have "\<forall>b bt. ?new = Some (b, bt) \<longrightarrow> 1 \<le> available_amount p b" using False by auto
      from Cons.IH[OF this a] show ?thesis .
    qed
  qed
qed

lemma count_nonneg: "0 \<le> count_res_tokens_in_hand p k"
  by (simp add: count_res_tokens_in_hand_def)

lemma pay_with_choice_nonneg:
  assumes "is_dict (fixed c)" and "can_pay_mixed p (fixed c)" and "nonneg_cost (resources p)"
  shows "nonneg_cost (resources (fst (pay_with_choice p c True)))"
proof -
  let ?p1 = "pay_mixed p (filter (\<lambda>kv. fst kv \<noteq> choice_key) (fixed c)) True"
  have n1: "nonneg_cost (resources ?p1)"
    using assms by (intro pay_mixed_nonneg) (simp_all add: is_dict_filter can_pay_filter)
  show ?thesis
  proof (cases "choice_one_of c = []")
    case True
    then show ?thesis using n1 by (simp add: pay_with_choice_def Let_def)
  next
    case ne: False
    show ?thesis
    proof (cases "choose_choice_key_to_pay ?p1 (choice_one_of c)")
      case None
      then show ?thesis using n1 ne by (simp add: pay_with_choice_def Let_def)
    next
      case (Some rk)
      then have "choose_loop ?p1 (choice_one_of c) None = Some rk"
        by (simp add: choose_choice_key_to_pay_def split: if_splits)
      then have av: "1 \<le> available_amount ?p1 rk" by (intro choose_loop_avail[of None]) auto
      obtain p2 used where ru: "remove_res_tokens_from_hand ?p1 rk 1 = (p2, used)" by fastforce
      note sp = remove_res_spec[OF _ ru]
      have r2: "resources p2 = resources ?p1" using sp by simp
      show ?thesis
      proof (cases "used = 0")
        case True
        then have "count_res_tokens_in_hand ?p1 rk = 0"
          using sp count_nonneg[of ?p1 rk] by auto
        then have "0 \<le> get0 (resources p2) rk - 1"
          using av r2 by (simp add: available_amount_def)
        then have "nonneg_cost (AList.update rk (get0 (resources p2) rk - 1) (resources p2))"
          using n1 r2 by (simp add: nonneg_update)
        then show ?thesis using ne Some ru True by (simp add: pay_with_choice_def Let_def)
      next
        case False
        then show ?thesis using ne Some ru n1 r2 by (simp add: pay_with_choice_def Let_def)
      qed
    qed
  qed
qed

lemma startswith_res_token: "startswith (res_token k) ''RES:''"
  by (simp add: startswith_def res_token_def)

lemma vp_not_res: "startswith tok ''VP:'' \<Longrightarrow> \<not> startswith tok ''RES:''"
proof (cases tok)
  case Nil
  then show ?thesis by (simp add: startswith_def)
next
  case (Cons a rest)
  assume "startswith tok ''VP:''"
  then have "a = CHR ''V''" using Cons by (simp add: startswith_def)
  then show ?thesis using Cons by (simp add: startswith_def)
qed

lemma avail_pop:
  assumes "i < length (hand p)" and "\<not> startswith (hand p ! i) ''RES:''"
  shows "available_amount (p\<lparr>hand := pop_at (hand p) i\<rparr>) k = available_amount p k"
proof -
  have ne: "hand p ! i \<noteq> res_token k" using assms(2) startswith_res_token[of k] by auto
  have "hand p = take i (hand p) @ hand p ! i # drop (Suc i) (hand p)"
    using assms(1) by (rule id_take_nth_drop)
  then have "filter (\<lambda>t. t = res_token k) (hand p)
      = filter (\<lambda>t. t = res_token k) (take i (hand p) @ hand p ! i # drop (Suc i) (hand p))"
    by simp
  also have "\<dots> = filter (\<lambda>t. t = res_token k) (pop_at (hand p) i)"
    using ne by (simp add: pop_at_def)
  finally show ?thesis
    by (simp add: available_amount_def count_res_tokens_in_hand_def)
qed

lemma is_dict_discount_loop: "is_dict cost \<Longrightarrow> is_dict (discount_loop ks cost)"
  by (induction ks) (auto simp: is_dict_def Let_def distinct_update distinct_delete)

lemma is_dict_discounted: "is_dict (play_cost c) \<Longrightarrow> is_dict (discounted_cost c d)"
  by (simp add: discounted_cost_def is_dict_discount_loop)

lemma res_ok_emit [simp]: "res_ok (emit g e) = res_ok g"
  by (simp add: res_ok_def)

lemma res_ok_nth: "res_ok g \<Longrightarrow> pid < length (players g) \<Longrightarrow> nonneg_cost (resources (players g ! pid))"
  by (simp add: res_ok_def list_all_length)

lemma res_ok_set:
  assumes "res_ok g" and "pid < length (players g) \<Longrightarrow> nonneg_cost (resources p)"
  shows "res_ok (set_player g pid p)"
proof (cases "pid < length (players g)")
  case True
  then show ?thesis
    using assms set_update_subset_insert[of "players g" pid p]
    by (auto simp: res_ok_def list_all_iff)
next
  case False
  then show ?thesis using assms(1) by (simp add: res_ok_def list_update_beyond)
qed

lemma res_ok_same:
  "res_ok g \<Longrightarrow> resources p = resources (players g ! pid) \<Longrightarrow> res_ok (set_player g pid p)"
  by (rule res_ok_set) (simp_all add: res_ok_nth)

lemma nonneg_gains_loop: "nonneg_cost gains \<Longrightarrow> nonneg_cost (gains_loop tags gains)"
proof (induction tags arbitrary: gains)
  case Nil
  then show ?case by simp
next
  case (Cons tag tags)
  have "nonneg_cost (AList.update k (get0 gains k + a) gains)" if "0 < a" for k a
    using that Cons.prems nonneg_get0[of gains k] by (intro nonneg_update) auto
  then show ?case using Cons by (auto simp: Let_def split: option.splits)
qed

lemma nonneg_compost_gains: "nonneg_cost (compost_gains_for c)"
  unfolding compost_gains_for_def by (rule nonneg_gains_loop) (simp add: nonneg_cost_def)

lemma grant_resources_nonneg:
  "nonneg_cost (resources p) \<Longrightarrow> nonneg_cost gs \<Longrightarrow> nonneg_cost (resources (grant_resources p gs))"
proof (induction p gs rule: grant_resources.induct)
  case (1 p)
  then show ?case by simp
next
  case (2 p k v rest)
  have "0 \<le> v" "nonneg_cost rest" using "2.prems"(2) by (simp_all add: nonneg_cost_def)
  moreover have "0 \<le> get0 (resources p) k" using "2.prems"(1) by (rule nonneg_get0)
  ultimately show ?case using 2 by (simp add: nonneg_update)
qed

lemma compost_res_ok: "res_ok g \<Longrightarrow> res_ok (compost_from_hand g pid i r)"
proof -
  assume ok: "res_ok g"
  let ?p = "players g ! pid"
  let ?p1 = "?p\<lparr>hand := pop_at (hand ?p) (nat i)\<rparr>"
  have g1: "res_ok (set_player g pid ?p1)" using ok by (intro res_ok_same) simp_all
  have g2: "res_ok (set_player (set_player g pid ?p1) pid (grant_resources ?p1 gs))"
    if "nonneg_cost gs" for gs
  proof (rule res_ok_set[OF g1])
    assume "pid < length (players (set_player g pid ?p1))"
    then have "nonneg_cost (resources ?p1)" using ok by (simp add: res_ok_nth)
    then show "nonneg_cost (resources (grant_resources ?p1 gs))"
      using that by (rule grant_resources_nonneg)
  qed
  show ?thesis
    using ok g1 g2[OF nonneg_compost_gains]
    by (simp add: compost_from_hand_def Let_def split: option.splits)
qed

lemma reshuffle_resources: "resources (fst (reshuffle_if_needed sh p r)) = resources p"
  by (simp add: reshuffle_if_needed_def split: prod.splits)

lemma draw_res_ok: "res_ok g \<Longrightarrow> res_ok (draw sh g i n)"
proof (induction n arbitrary: g)
  case 0
  then show ?case by simp
next
  case (Suc n)
  define p where "p = players g ! i"
  define g0 where "g0 = (if discard p \<noteq> []
      then emit g [(''a'', S ''reshuffle''), (''p'', I (int (p_id p))),
                   (''n'', I (int (length (discard p))))]
      else g)"
  define g1 where "g1 = (if deck p = []
      then (case reshuffle_if_needed sh p (rng g0) of (p', r') \<Rightarrow> set_player (g0\<lparr>rng := r'\<rparr>) i p')
      else g)"
  define g2 where "g2 = set_player g1 i ((players g1 ! i)\<lparr>hand := hand (players g1 ! i) @ [last (deck (players g1 ! i))],
                                                   deck := butlast (deck (players g1 ! i))\<rparr>)"
  have step: "draw sh g i (Suc n) = (if deck (players g1 ! i) = [] then g1 else draw sh g2 i n)"
    by (simp add: p_def g0_def g1_def g2_def Let_def)
  have ok0: "res_ok g0" and p0: "players g0 = players g"
    using Suc.prems by (simp_all add: g0_def)
  have ok1: "res_ok g1"
  proof (cases "deck p = []")
    case False
    then show ?thesis using Suc.prems by (simp add: g1_def)
  next
    case True
    obtain p' r' where pr: "reshuffle_if_needed sh p (rng g0) = (p', r')" by fastforce
    then have "resources p' = resources p" using reshuffle_resources[of sh p "rng g0"] by simp
    moreover have "res_ok (g0\<lparr>rng := r'\<rparr>)" using ok0 by (simp add: res_ok_def)
    moreover have "players (g0\<lparr>rng := r'\<rparr>) = players g" using p0 by simp
    ultimately have "res_ok (set_player (g0\<lparr>rng := r'\<rparr>) i p')"
      by (intro res_ok_same) (simp_all add: p_def)
    then show ?thesis using True pr by (simp add: g1_def)
  qed
  have "res_ok g2" unfolding g2_def using ok1 by (intro res_ok_same) simp_all
  then have "res_ok (draw sh g2 i n)" by (rule Suc.IH)
  then show ?case using ok1 by (simp only: step split: if_splits) simp
qed

lemma gain_res_ok: "res_ok g \<Longrightarrow> 0 \<le> n \<Longrightarrow> res_ok (gain g pid k n)"
proof -
  assume ok: "res_ok g" and n: "0 \<le> n"
  show ?thesis unfolding gain_def Let_def
  proof (rule res_ok_set[OF ok])
    assume "pid < length (players g)"
    then have nn: "nonneg_cost (resources (players g ! pid))" using ok by (rule res_ok_nth[rotated])
    then have "0 \<le> get0 (resources (players g ! pid)) k + n" using n nonneg_get0[OF nn, of k] by simp
    then show "nonneg_cost (resources ((players g ! pid)\<lparr>resources :=
        AList.update k (get0 (resources (players g ! pid)) k + n) (resources (players g ! pid))\<rparr>))"
      using nn by (simp add: nonneg_update)
  qed
qed

lemma claim_res_ok: "res_ok g \<Longrightarrow> res_ok (fst (claim_initiative g pid))"
  by (simp add: claim_initiative_def res_ok_def emit_def)

lemma field_effect_res_ok:
  "res_ok g \<Longrightarrow> 0 \<le> 1 + forage_yield_bonus_this_round g \<Longrightarrow> res_ok (field_effect sh g pid f)"
  by (simp add: field_effect_def gain_res_ok draw_res_ok compost_res_ok claim_res_ok del: draw.simps)

lemma act_worker_res_ok:
  assumes "res_ok g" and "0 \<le> 1 + forage_yield_bonus_this_round g"
    and "act_worker sh g pid f = Inr g'"
  shows "res_ok g'"
proof -
  define g1 where "g1 = field_effect sh g pid f"
  define g2 where "g2 = set_player g1 pid ((players g1 ! pid)\<lparr>workers := workers (players g1 ! pid) - 1\<rparr>)"
  define g3 where "g3 = g2\<lparr>field_occupancy :=
      AList.update f (get0 (field_occupancy g) f + 1) (field_occupancy g2)\<rparr>"
  define g4 where "g4 = set_player g3 pid
      ((players g3 ! pid)\<lparr>visits := AList.update f (get0 (visits (players g3 ! pid)) f + 1) (visits (players g3 ! pid))\<rparr>)"
  have o1: "res_ok g1" unfolding g1_def using assms(1,2) by (rule field_effect_res_ok)
  have o2: "res_ok g2" unfolding g2_def using o1 by (intro res_ok_same) simp_all
  have o3: "res_ok g3" using o2 by (simp add: g3_def res_ok_def)
  have o4: "res_ok g4" unfolding g4_def using o3 by (intro res_ok_same) simp_all
  have "g' = g \<or> g' = emit g4 [(''a'', S ''worker''), (''p'', I (int pid)), (''field'', S f)]"
    using assms(3) by (auto simp: act_worker_def Let_def g1_def g2_def g3_def g4_def split: if_splits)
  then show ?thesis using assms(1) o4 by auto
qed

lemma pay_plasma_res_ok:
  assumes "res_ok g" and "pid < length (players g)"
    and "\<not> available_amount (players g ! pid) ''plasma'' < cost"
    and "resources p' = resources (pay_mixed (players g ! pid) [(''plasma'', cost)] True)"
  shows "res_ok (set_player g pid p')"
proof (rule res_ok_set[OF assms(1)])
  have "nonneg_cost (resources (players g ! pid))" using assms(1,2) by (rule res_ok_nth)
  moreover have "can_pay_mixed (players g ! pid) [(''plasma'', cost)]"
    using assms(3) by (simp add: choice_key_def)
  moreover have "is_dict [(''plasma'', cost)]" by (simp add: is_dict_def)
  ultimately have "nonneg_cost (resources (pay_mixed (players g ! pid) [(''plasma'', cost)] True))"
    by (intro pay_mixed_nonneg)
  then show "nonneg_cost (resources p')" using assms(4) by simp
qed

lemma act_buy_vp_res_ok:
  assumes "res_ok g" and "act_buy_vp g pid v = Inr g'"
  shows "res_ok g'"
  using assms
  by (auto simp: act_buy_vp_def Let_def split: if_splits intro!: pay_plasma_res_ok)

lemma act_buy_pool_res_ok:
  assumes "res_ok g" and "act_buy_pool g pid j = Inr g'"
  shows "res_ok g'"
proof -
  have pool_upd: "res_ok (x\<lparr>pool := y\<rparr>) = res_ok x" for x y by (simp add: res_ok_def)
  show ?thesis
    using assms
    by (auto simp: act_buy_pool_def Let_def setup_defines_def pool_upd
        split: if_splits option.splits intro!: pay_plasma_res_ok)
qed

lemma is_dict_vp_play_cost: "dicts_ok g \<Longrightarrow> is_dict (fixed (vp_play_cost g v))"
  by (simp add: dicts_ok_def vp_play_cost_def is_dict_def)

lemma can_pay_after_pop:
  assumes "i < length (hand p)" and "\<not> startswith (hand p ! i) ''RES:''"
  shows "can_pay_mixed (p\<lparr>hand := pop_at (hand p) i\<rparr>) cost = can_pay_mixed p cost"
  by (rule can_pay_cong) (simp add: avail_pop[OF assms])

lemma act_play_vp_res_ok:
  assumes "res_ok g" and "dicts_ok g" and "pid < length (players g)"
    and "i < length (hand (players g ! pid))" and "startswith (hand (players g ! pid) ! i) ''VP:''"
  shows "res_ok (act_play_vp g pid i (hand (players g ! pid) ! i))"
proof -
  define p where "p = players g ! pid"
  define tok where "tok = hand p ! i"
  define cost where "cost = vp_play_cost g (vp_value_of tok)"
  define p1 where "p1 = p\<lparr>hand := pop_at (hand p) i\<rparr>"
  have nn: "nonneg_cost (resources p)" unfolding p_def using assms(1,3) by (rule res_ok_nth)
  show ?thesis
  proof (cases "can_pay_with_choice p cost")
    case False
    then show ?thesis using assms(1) by (simp add: act_play_vp_def Let_def p_def tok_def cost_def)
  next
    case True
    then have "can_pay_mixed p (fixed cost)"
      by (auto simp: can_pay_with_choice_def split: if_splits)
    moreover have "\<not> startswith (hand p ! i) ''RES:''"
      using assms(5) vp_not_res by (simp add: p_def)
    ultimately have cp: "can_pay_mixed p1 (fixed cost)"
      using assms(4) by (simp add: p1_def can_pay_after_pop p_def)
    have n1: "nonneg_cost (resources p1)" using nn by (simp add: p1_def)
    have d: "is_dict (fixed cost)" unfolding cost_def using assms(2) by (rule is_dict_vp_play_cost)
    have n2: "nonneg_cost (resources (fst (pay_with_choice p1 cost True)))"
      using d cp n1 by (rule pay_with_choice_nonneg)
    obtain p2 ok where pw: "pay_with_choice p1 cost True = (p2, ok)" by fastforce
    then have n2': "nonneg_cost (resources p2)" using n2 by simp
    have "res_ok (set_player g pid q)" if "resources q = resources p2" for q
      using assms(1) that n2' by (intro res_ok_set) simp_all
    then show ?thesis
      using True pw
      by (simp add: act_play_vp_def Let_def p_def[symmetric] tok_def[symmetric]
          cost_def[symmetric] p1_def[symmetric])
  qed
qed

lemma act_play_card_res_ok:
  assumes "res_ok g" and "dicts_ok g" and "tokens_apart g" and "pid < length (players g)"
    and "i < length (hand (players g ! pid))"
    and "map_of (cards g) (hand (players g ! pid) ! i) = Some c"
  shows "res_ok (act_play_card g pid i c tm sl)"
proof -
  define p where "p = players g ! pid"
  define eff where "eff = discounted_cost c (total_discount_for_card (cards g) p c)"
  define p1 where "p1 = p\<lparr>hand := pop_at (hand p) i\<rparr>"
  define p2 where "p2 = pay_mixed p1 eff True"
  define g1 where "g1 = set_player g pid p2"
  have mem: "(hand p ! i, c) \<in> set (cards g)"
    using assms(6) by (simp add: p_def map_of_SomeD)
  have dc: "is_dict (play_cost c)"
    using assms(2) mem by (auto simp: dicts_ok_def list_all_iff)
  have nr: "\<not> startswith (hand p ! i) ''RES:''"
    using assms(3) mem by (auto simp: tokens_apart_def list_all_iff)
  have nn: "nonneg_cost (resources p)" unfolding p_def using assms(1,4) by (rule res_ok_nth)
  show ?thesis
  proof (cases "can_pay_mixed p eff")
    case False
    then show ?thesis using assms(1) by (simp add: act_play_card_def Let_def p_def eff_def)
  next
    case True
    then have cp: "can_pay_mixed p1 eff"
      using assms(5) nr by (simp add: p1_def can_pay_after_pop p_def)
    have de: "is_dict eff" unfolding eff_def using dc by (rule is_dict_discounted)
    have n2: "nonneg_cost (resources p2)"
      unfolding p2_def using de cp by (rule pay_mixed_nonneg) (simp add: p1_def nn)
    have o1: "res_ok g1" unfolding g1_def using assms(1) n2 by (intro res_ok_set)
    have same: "res_ok (set_player x pid q)" if "res_ok x" "resources q = resources (players x ! pid)" for x q
      using that by (rule res_ok_same)
    have pl: "players g1 ! pid = p2" using assms(4) by (simp add: g1_def)
    have o2: "res_ok (set_player g1 pid (p2\<lparr>mat := m\<rparr>))" for m
      using o1 pl by (intro same) simp_all
    have o2d: "res_ok (set_player g1 pid (p2\<lparr>discard := m\<rparr>))" for m
      using o1 pl by (intro same) simp_all
    show ?thesis
      using True o1 o2 o2d
      by (simp add: act_play_card_def Let_def p_def[symmetric] eff_def[symmetric]
          p1_def[symmetric] p2_def[symmetric] g1_def[symmetric] same compost_res_ok
          split: option.splits)
  qed
qed

lemma act_play_res_ok:
  assumes "res_ok g" and "dicts_ok g" and "tokens_apart g" and "act_play g pid i tm sl = Inr g'"
  shows "res_ok g'"
proof -
  have "g' = g
      \<or> (pid < length (players g) \<and> nat i < length (hand (players g ! pid))
         \<and> startswith (hand (players g ! pid) ! nat i) ''VP:''
         \<and> g' = act_play_vp g pid (nat i) (hand (players g ! pid) ! nat i))
      \<or> (\<exists>c. pid < length (players g) \<and> nat i < length (hand (players g ! pid))
         \<and> map_of (cards g) (hand (players g ! pid) ! nat i) = Some c
         \<and> g' = act_play_card g pid (nat i) c tm sl)"
    using assms(4) by (auto simp: act_play_def Let_def split: if_splits option.splits)
  then show ?thesis
    using assms(1-3) act_play_vp_res_ok act_play_card_res_ok by blast
qed

lemma static_refl [simp]: "static g g"
  by (simp add: static_def)

lemma static_emit [simp]: "static g (emit x e) = static g x"
  by (simp add: static_def emit_def)

lemma static_set_player [simp]: "static g (set_player x pid p) = static g x"
  by (simp add: static_def set_player_def)

lemma draw_keeps:
  "cards (draw sh x i n) = cards x"
  "cfg (draw sh x i n) = cfg x"
  "forage_yield_bonus_this_round (draw sh x i n) = forage_yield_bonus_this_round x"
  by (induction sh x i n rule: draw.induct; simp add: Let_def emit_def set_player_def split: prod.splits)+

lemma static_draw [simp]: "static g (draw sh x i n) = static g x"
  by (simp add: static_def draw_keeps)

lemma static_compost [simp]: "static g (compost_from_hand x pid i r) = static g x"
  by (simp add: compost_from_hand_def Let_def split: option.splits)

lemma static_gain [simp]: "static g (gain x pid k n) = static g x"
  by (simp add: gain_def Let_def)

lemma static_claim [simp]: "static g (fst (claim_initiative x pid)) = static g x"
  by (simp add: claim_initiative_def static_def emit_def)

lemma static_field_effect [simp]: "static g (field_effect sh x pid f) = static g x"
  by (simp add: field_effect_def del: draw.simps)

lemma static_updates [simp]:
  "static g (x\<lparr>field_occupancy := y\<rparr>) = static g x"
  "static g (x\<lparr>pool := z\<rparr>) = static g x"
  by (simp_all add: static_def)

lemma static_apply_action: "apply_action sh g pid a = Inr g' \<Longrightarrow> static g g'"
proof (cases a)
  case (Play i tm sl)
  assume "apply_action sh g pid a = Inr g'"
  then show ?thesis using Play
    by (auto simp: act_play_def act_play_vp_def act_play_card_def Let_def
        split: if_splits option.splits prod.splits)
next
  case (Buy_pool j)
  assume "apply_action sh g pid a = Inr g'"
  then show ?thesis using Buy_pool
    by (auto simp: act_buy_pool_def setup_defines_def Let_def split: if_splits option.splits)
next
  case (Buy_vp v)
  assume "apply_action sh g pid a = Inr g'"
  then show ?thesis using Buy_vp by (auto simp: act_buy_vp_def Let_def split: if_splits)
next
  case (Worker f)
  assume "apply_action sh g pid a = Inr g'"
  then show ?thesis using Worker
    by (auto simp: act_worker_def Let_def split: if_splits)
next
  case Pass
  assume "apply_action sh g pid a = Inr g'"
  then show ?thesis using Pass by auto
next
  case (Other k)
  assume "apply_action sh g pid a = Inr g'"
  then show ?thesis using Other by auto
qed

lemma res_ok_apply_action:
  assumes "res_ok g" and "dicts_ok g" and "tokens_apart g"
    and "0 \<le> 1 + forage_yield_bonus_this_round g"
    and "apply_action sh g pid a = Inr g'"
  shows "res_ok g'"
proof (cases a)
  case (Play i tm sl)
  then show ?thesis using assms act_play_res_ok[of g pid i tm sl g'] by simp
next
  case (Buy_pool j)
  then show ?thesis using assms act_buy_pool_res_ok[of g pid j g'] by simp
next
  case (Buy_vp v)
  then show ?thesis using assms act_buy_vp_res_ok[of g pid v g'] by simp
next
  case (Worker f)
  then show ?thesis using assms act_worker_res_ok[of g sh pid f g'] by simp
next
  case Pass
  then show ?thesis using assms by auto
next
  case (Other k)
  then show ?thesis using assms by auto
qed

text \<open>
  C10, as the code has it. Starting from a state in which every resource counter of every
  player is at least 0, applying any action leaves every counter at least 0, provided
  that no card id of the library is the name of a resource token (\<open>RES:<resource>\<close>)
  and that the forage yield, 1 plus the forage bonus of the round, is not negative. Cost
  dictionaries have distinct keys, as Python dictionaries do. These conditions hold again
  after the action.
\<close>

theorem resources_stay_nonneg:
  assumes "res_ok g" and "dicts_ok g" and "tokens_apart g"
    and "0 \<le> 1 + forage_yield_bonus_this_round g"
    and "apply_action sh g pid a = Inr g'"
  shows "res_ok g' \<and> dicts_ok g' \<and> tokens_apart g'
    \<and> 0 \<le> 1 + forage_yield_bonus_this_round g'"
proof -
  have "static g g'" using assms(5) by (rule static_apply_action)
  then have "dicts_ok g' \<and> tokens_apart g' \<and> 0 \<le> 1 + forage_yield_bonus_this_round g'"
    using assms(2-4) by (simp add: static_def dicts_ok_def tokens_apart_def)
  then show ?thesis using res_ok_apply_action[OF assms] by simp
qed

theorem resources_negative_counterexample:
  "res_ok collide_game
   \<and> legal_actions collide_game 0
       = Inr ([Play 0 False None] @ map (\<lambda>s. Play 0 True (Some s)) [1, 2, 3, 4, 5, 6]
              @ [Buy_vp 1, Worker ''plasma'', Worker ''ash'', Worker ''shards'', Worker ''forage'',
                 Worker ''rookery'', Worker ''compost'', Worker ''initiative'', Pass])
   \<and> map_sum id (\<lambda>g. (get0 (resources (players g ! 0)) ''plasma'', res_ok g))
        (apply_action no_shuffle collide_game 0 (Play 0 False None)) = Inr (- 1, False)
   \<and> res_ok lean_game
   \<and> map_sum id (\<lambda>g. (get0 (resources (players g ! 0)) ''nut'', res_ok g))
        (apply_action no_shuffle lean_game 0 (Worker ''forage'')) = Inr (- 2, False)"
  by code_simp

theorem resources_stay_nonneg_witness:
  "res_ok mat_game \<and> dicts_ok mat_game \<and> tokens_apart mat_game
   \<and> 0 \<le> 1 + forage_yield_bonus_this_round mat_game
   \<and> (\<exists>g'. apply_action no_shuffle mat_game 0 (Play 0 False None) = Inr g'
         \<and> get0 (resources (players g' ! 0)) ''plasma'' = 0
         \<and> get0 (resources (players g' ! 0)) ''ash'' = 0
         \<and> res_ok g')"
proof -
  have h: "res_ok mat_game" "dicts_ok mat_game" "tokens_apart mat_game"
    "0 \<le> 1 + forage_yield_bonus_this_round mat_game"
    by code_simp+
  have e: "map_sum id (\<lambda>g. (get0 (resources (players g ! 0)) ''plasma'',
                            get0 (resources (players g ! 0)) ''ash''))
             (apply_action no_shuffle mat_game 0 (Play 0 False None)) = Inr (0, 0)"
    by code_simp
  then obtain g1 where g1: "apply_action no_shuffle mat_game 0 (Play 0 False None) = Inr g1"
    "get0 (resources (players g1 ! 0)) ''plasma'' = 0" "get0 (resources (players g1 ! 0)) ''ash'' = 0"
    by (cases "apply_action no_shuffle mat_game 0 (Play 0 False None)") auto
  show ?thesis
    using resources_stay_nonneg[OF h g1(1)] h g1 by blast
qed

end
